theory Spec2Isabelle
  imports Main
begin

section \<open>Log review sessions\<close>

text \<open>
  A shallow embedding of \<^verbatim>\<open>server/services/log_review_session.py\<close>: the
  context assembler (\<^verbatim>\<open>_gather_log_context\<close>, \<^verbatim>\<open>_read_project_config\<close>,
  \<^verbatim>\<open>_build_system_prompt\<close>), the session (\<^verbatim>\<open>start\<close>,
  \<^verbatim>\<open>send_message\<close>, \<^verbatim>\<open>_query_claude\<close>, \<^verbatim>\<open>close\<close>) and the
  registry functions.

  Conventions. A Python \<^verbatim>\<open>str\<close> is the list of its code points, one list
  element per character, so \<^verbatim>\<open>s[:n]\<close> is \<^term>\<open>take n s\<close> and \<^verbatim>\<open>len\<close> is
  \<^const>\<open>length\<close>. An asynchronous generator is the list of the fragments it yields
  when it is consumed to its end, together with the state it leaves. Everything the
  code asks of a collaborator (the session database, the file system, the clock, the
  model client) is a field of an environment record; a collaborator's exception that
  the source catches is a branch of the model.
\<close>

subsection \<open>Strings\<close>

text \<open>
  A character is its Unicode code point, whatever its size. \<^term>\<open>str s\<close> is the
  Python string of an ASCII literal.
\<close>

type_synonym pystr = "nat list"

definition str :: "string \<Rightarrow> pystr" where
  "str s = map of_char s"

definition nl :: pystr where
  "nl = [10]"

text \<open>\<^verbatim>\<open>sep.join(xs)\<close>\<close>

fun join :: "pystr \<Rightarrow> pystr list \<Rightarrow> pystr" where
  "join sep [] = []"
| "join sep [x] = x"
| "join sep (x # y # ys) = x @ sep @ join sep (y # ys)"

text \<open>\<^verbatim>\<open>needle in haystack\<close> on strings: the needle is a contiguous part.\<close>

fun starts_with :: "pystr \<Rightarrow> pystr \<Rightarrow> bool" where
  "starts_with [] ys = True"
| "starts_with (x # xs) [] = False"
| "starts_with (x # xs) (y # ys) = (x = y \<and> starts_with xs ys)"

fun contains :: "pystr \<Rightarrow> pystr \<Rightarrow> bool" where
  "contains needle [] = (needle = [])"
| "contains needle (c # cs) = (starts_with needle (c # cs) \<or> contains needle cs)"

text \<open>
  \<^verbatim>\<open>str.lower()\<close>. The letters \<^verbatim>\<open>A-Z\<close> go to \<^verbatim>\<open>a-z\<close>; U+0130 goes to
  \<^verbatim>\<open>i\<close> followed by U+0307, and U+212A to \<^verbatim>\<open>k\<close>. Python maps further
  characters, all of them to characters outside ASCII; they are left as they are,
  which changes no occurrence of an ASCII word in the result.
\<close>

definition lower_char :: "nat \<Rightarrow> pystr" where
  "lower_char c =
     (if 65 \<le> c \<and> c \<le> 90 then [c + 32]
      else if c = 304 then [105, 775]
      else if c = 8490 then [107]
      else [c])"

definition lower :: "pystr \<Rightarrow> pystr" where
  "lower s = concat (map lower_char s)"

text \<open>\<^verbatim>\<open>str(n)\<close> of an integer, as an f-string renders it.\<close>

definition digit_char :: "nat \<Rightarrow> nat" where
  "digit_char d = 48 + d"

function str_of_nat :: "nat \<Rightarrow> pystr" where
  "str_of_nat n = (if n < 10 then [digit_char n] else str_of_nat (n div 10) @ [digit_char (n mod 10)])"
  by pat_completeness auto
termination
  by (relation "measure id") auto

declare str_of_nat.simps [simp del]

definition str_of_int :: "int \<Rightarrow> pystr" where
  "str_of_int i = (if i < 0 then str ''-'' @ str_of_nat (nat (- i)) else str_of_nat (nat i))"

subsection \<open>Values of the collaborators' dictionaries\<close>

text \<open>
  The rows that \<^verbatim>\<open>get_sessions\<close> and \<^verbatim>\<open>get_session_logs\<close> return are
  dictionaries. A key the code indexes (\<^verbatim>\<open>s['id']\<close>, \<^verbatim>\<open>err["content"]\<close>) is
  a field; a key it reads with \<^verbatim>\<open>.get\<close> is an optional field, \<^const>\<open>None\<close> when
  the key is missing.
\<close>

datatype pyval = PyNone | PyStr pystr | PyInt int | PyBool bool

fun py_str :: "pyval \<Rightarrow> pystr" where
  "py_str PyNone = str ''None''"
| "py_str (PyStr s) = s"
| "py_str (PyInt i) = str_of_int i"
| "py_str (PyBool b) = (if b then str ''True'' else str ''False'')"

fun truthy :: "pyval \<Rightarrow> bool" where
  "truthy PyNone = False"
| "truthy (PyStr s) = (s \<noteq> [])"
| "truthy (PyInt i) = (i \<noteq> 0)"
| "truthy (PyBool b) = b"

text \<open>\<^verbatim>\<open>d.get(key, default)\<close> inside an f-string.\<close>

definition get_or :: "pyval option \<Rightarrow> pystr \<Rightarrow> pystr" where
  "get_or v d = (case v of None \<Rightarrow> d | Some x \<Rightarrow> py_str x)"

record session_row =
  s_id :: int
  s_status :: pyval
  s_yolo_mode :: pyval
  s_model :: "pyval option"
  s_max_concurrency :: "pyval option"
  s_started_at :: "pyval option"
  s_ended_at :: "pyval option"

record log_row =
  l_content :: pystr
  l_timestamp :: "pyval option"
  l_agent_name :: "pyval option"

text \<open>A configuration file: \<^verbatim>\<open>exists()\<close> is false, or \<^verbatim>\<open>read_text\<close> raises, or it has a content.\<close>

datatype file_status = Missing | Unreadable | Content pystr

text \<open>What the SDK's response stream delivers.\<close>

datatype block = TextBlock pystr | OtherBlock

datatype sdk_message = AssistantMessage "block list" | OtherMessage

text \<open>
  One answer of the client: \<^verbatim>\<open>client.query\<close> raises, or the messages
  \<^verbatim>\<open>receive_response\<close> delivers, after which the stream ends or raises.
\<close>

record response =
  query_raises :: bool
  stream :: "sdk_message list"
  stream_raises :: bool

text \<open>The three ways the \<^verbatim>\<open>try\<close> block that creates the client ends.\<close>

datatype client_init = ConstructorRaises | EnterRaises | Entered

subsection \<open>The environment\<close>

record env =
  which_claude :: "pystr option"
  get_sessions :: "nat \<Rightarrow> session_row list"
  get_session_logs :: "int \<Rightarrow> pystr \<Rightarrow> nat \<Rightarrow> log_row list"
  iso_minutes :: "pystr \<Rightarrow> pystr \<Rightarrow> pystr option"
  allowed_commands_yaml :: file_status
  coding_prompt_md :: file_status
  initializer_prompt_md :: file_status
  claude_md :: file_status
  settings_path :: pystr
  model_for_role :: pystr
  client_init :: client_init
  respond :: "pystr \<Rightarrow> response"
  now :: "nat \<Rightarrow> pystr"
  exists_raises :: "pystr \<Rightarrow> bool"
  unlink_raises :: bool

text \<open>
  \<^term>\<open>which_claude\<close> is \<^verbatim>\<open>shutil.which("claude")\<close>; \<^term>\<open>get_sessions e n\<close> is
  \<^verbatim>\<open>get_sessions(project_dir, project_name, limit=n)\<close>; \<^term>\<open>get_session_logs e sid t n\<close>
  is \<^verbatim>\<open>get_session_logs(project_dir, sid, line_type_filter=t, limit=n)\<close>;
  \<^term>\<open>iso_minutes e a b\<close> is the text of \<^verbatim>\<open>{mins:.0f}\<close> for the two ISO
  timestamps, \<^const>\<open>None\<close> where \<^verbatim>\<open>fromisoformat\<close> or the subtraction raises;
  \<^term>\<open>settings_path\<close> is \<^verbatim>\<open>get_expand_settings_path(project_dir, uuid4().hex)\<close>;
  \<^term>\<open>now e n\<close> is \<^verbatim>\<open>datetime.now().isoformat()\<close> when the message log holds
  \<^term>\<open>n\<close> turns; \<^term>\<open>exists_raises e p\<close> says that \<^verbatim>\<open>Path.exists\<close> raises
  for the path \<^term>\<open>p\<close>.
\<close>

subsection \<open>Context assembly\<close>

definition CONFIG_TRUNCATION_LIMIT :: nat where
  "CONFIG_TRUNCATION_LIMIT = 8000"

definition PROMPT_TRUNCATION_LIMIT :: nat where
  "PROMPT_TRUNCATION_LIMIT = 4000"

definition no_sessions_marker :: pystr where
  "no_sessions_marker = str ''<no_sessions>''"

definition no_sessions_context :: pystr where
  "no_sessions_context =
     str ''<no_sessions>'' @ nl @
     str ''No agent sessions found. The agent has not been run yet for this project.'' @ nl @
     str ''</no_sessions>''"

definition duration_of :: "env \<Rightarrow> session_row \<Rightarrow> pystr" where
  "duration_of e s =
     (case (s_started_at s, s_ended_at s) of
        (Some a, Some b) \<Rightarrow>
          if truthy a \<and> truthy b then
            (case (a, b) of
               (PyStr x, PyStr y) \<Rightarrow>
                 (case iso_minutes e x y of
                    Some m \<Rightarrow> str '' ('' @ m @ str ''min)''
                  | None \<Rightarrow> [])
             | _ \<Rightarrow> [])
          else []
      | _ \<Rightarrow> [])"

definition session_line :: "env \<Rightarrow> session_row \<Rightarrow> pystr" where
  "session_line e s =
     str ''  Session #'' @ str_of_int (s_id s) @ str '': status='' @ py_str (s_status s) @
     str '', yolo='' @ py_str (s_yolo_mode s) @ str '', '' @
     str ''model='' @ get_or (s_model s) (str ''unknown'') @
     str '', concurrency='' @ get_or (s_max_concurrency s) (str ''N/A'') @ str '', '' @
     str ''started='' @ get_or (s_started_at s) (str ''?'') @ duration_of e s"

definition error_line :: "int \<Rightarrow> log_row \<Rightarrow> pystr" where
  "error_line sid err =
     str ''  [Session #'' @ str_of_int sid @ str ''] ['' @ get_or (l_timestamp err) (str ''?'') @ str ''] '' @
     str ''agent='' @ get_or (l_agent_name err) (str ''?'') @ str '': '' @ take 500 (l_content err)"

definition tool_line :: "int \<Rightarrow> log_row \<Rightarrow> pystr" where
  "tool_line sid t = str ''  [Session #'' @ str_of_int sid @ str ''] '' @ take 300 (l_content t)"

definition failure_keywords :: "pystr list" where
  "failure_keywords = [str ''error'', str ''failed'', str ''denied'', str ''permission'', str ''not allowed'']"

definition is_failed_result :: "log_row \<Rightarrow> bool" where
  "is_failed_result r = list_ex (\<lambda>kw. contains kw (lower (l_content r))) failure_keywords"

definition result_line :: "int \<Rightarrow> log_row \<Rightarrow> pystr" where
  "result_line sid r = str ''  [Session #'' @ str_of_int sid @ str ''] '' @ take 500 (l_content r)"

definition error_lines :: "env \<Rightarrow> int list \<Rightarrow> pystr list" where
  "error_lines e session_ids =
     concat (map (\<lambda>sid. map (error_line sid) (get_session_logs e sid (str ''error'') 50)) session_ids)"

definition tool_lines :: "env \<Rightarrow> int list \<Rightarrow> pystr list" where
  "tool_lines e session_ids =
     concat (map (\<lambda>sid. map (tool_line sid) (get_session_logs e sid (str ''tool_use'') 200))
       (take 3 session_ids))"

definition result_lines :: "env \<Rightarrow> int list \<Rightarrow> pystr list" where
  "result_lines e session_ids =
     concat (map (\<lambda>sid. map (result_line sid)
         (filter is_failed_result (get_session_logs e sid (str ''tool_result'') 200)))
       (take 5 session_ids))"

definition log_sections :: "env \<Rightarrow> session_row list \<Rightarrow> pystr list" where
  "log_sections e sessions =
     (let session_ids = map s_id (take 5 sessions);
          els = error_lines e session_ids;
          tls = tool_lines e session_ids;
          rls = result_lines e session_ids
      in [str ''<sessions>'' @ nl @ join nl (map (session_line e) sessions) @ nl @ str ''</sessions>'']
         @ [if els \<noteq> []
            then str ''<errors>'' @ nl @ join nl (take 200 els) @ nl @ str ''</errors>''
            else str ''<errors>'' @ nl @ str ''No errors found in recent sessions.'' @ nl @ str ''</errors>'']
         @ (if tls \<noteq> []
            then [str ''<tool_usage>'' @ nl @ join nl (take 500 tls) @ nl @ str ''</tool_usage>'']
            else [])
         @ (if rls \<noteq> []
            then [str ''<failed_tool_results>'' @ nl @ join nl (take 200 rls) @ nl @
                  str ''</failed_tool_results>'']
            else []))"

definition gather_log_context :: "env \<Rightarrow> pystr" where
  "gather_log_context e =
     (let sessions = get_sessions e 10
      in if sessions = [] then no_sessions_context
         else join (nl @ nl) (log_sections e sessions))"

definition allowed_commands_section :: "file_status \<Rightarrow> pystr list" where
  "allowed_commands_section f =
     (case f of
        Content c \<Rightarrow>
          [str ''<allowed_commands_yaml>'' @ nl @ take CONFIG_TRUNCATION_LIMIT c @ nl @
           str ''</allowed_commands_yaml>'']
      | Unreadable \<Rightarrow> []
      | Missing \<Rightarrow>
          [str ''<allowed_commands_yaml>'' @ nl @
           str ''No allowed_commands.yaml found (using defaults only).'' @ nl @
           str ''</allowed_commands_yaml>''])"

definition file_section :: "pystr \<Rightarrow> nat \<Rightarrow> file_status \<Rightarrow> pystr list" where
  "file_section tag limit f =
     (case f of
        Content c \<Rightarrow> [str ''<'' @ tag @ str ''>'' @ nl @ take limit c @ nl @ str ''</'' @ tag @ str ''>'']
      | Unreadable \<Rightarrow> []
      | Missing \<Rightarrow> [])"

definition config_sections :: "env \<Rightarrow> pystr list" where
  "config_sections e =
     allowed_commands_section (allowed_commands_yaml e)
     @ file_section (str ''coding_prompt'') PROMPT_TRUNCATION_LIMIT (coding_prompt_md e)
     @ file_section (str ''initializer_prompt'') PROMPT_TRUNCATION_LIMIT (initializer_prompt_md e)
     @ file_section (str ''claude_md'') CONFIG_TRUNCATION_LIMIT (claude_md e)"

definition read_project_config :: "env \<Rightarrow> pystr" where
  "read_project_config e =
     (let sections = config_sections e
      in if sections \<noteq> [] then join (nl @ nl) sections
         else str ''No project configuration files found.'')"

text \<open>
  The fixed part of the system prompt, line by line. The em dash of the source is the
  code point 8212 (U+2014), the double quote is 34.
\<close>

definition report_format :: "pystr list" where
  "report_format =
    [
     str ''## Report Format'',
     [],
     str ''Produce your analysis using the following sections. Use markdown formatting.'',
     [],
     str ''### 1. Executive Summary'',
     str ''2-3 sentences summarizing overall agent health and effectiveness. Mention session count, success rate, and the single biggest issue.'',
     [],
     str ''### 2. Command Analysis'',
     str ''Identify bash commands the agent used frequently (from tool_use logs) that may not be in the project's `allowed_commands.yaml`. For each:'',
     str ''- Command name and frequency'',
     str ''- Whether it was denied/failed due to permissions'',
     str ''- Exact YAML snippet to add to `allowed_commands.yaml`'',
     [],
     str ''If no command issues are found, say so explicitly.'',
     [],
     str ''### 3. Error Patterns'',
     str ''Group recurring errors by type (build errors, test failures, permission denials, crashes, timeouts). For each group:'',
     str ''- Error pattern description'',
     str ''- Frequency and affected sessions'',
     str ''- Root cause analysis'',
     str ''- Specific preventive measure'',
     [],
     str ''### 4. Efficiency Analysis'',
     str ''Analyze wasted effort patterns:'',
     str ''- Agent crashes and their causes'',
     str ''- Repeated failed attempts at the same task'',
     str ''- Time spent on tasks that could be avoided with better configuration'',
     str ''- YOLO vs standard mode effectiveness (if both were used)'',
     [],
     str ''### 5. Prompt Improvement Suggestions'',
     str ''Specific text to add to project prompts to prevent recurring issues. Provide suggestions as fenced code blocks that can be directly added to:'',
     str ''- `coding_prompt.md` '' @ [8212] @ str '' instructions for the coding agent'',
     str ''- `initializer_prompt.md` '' @ [8212] @ str '' instructions for feature creation'',
     str ''- `CLAUDE.md` '' @ [8212] @ str '' project-level agent instructions'',
     [],
     str ''### 6. Configuration Recommendations'',
     str ''Based on observed patterns, recommend changes to:'',
     str ''- Batch size (current behavior vs optimal)'',
     str ''- Concurrency level'',
     str ''- YOLO mode suitability for this project'',
     str ''- Any other AutoForge settings'',
     [],
     str ''### 7. Action Items'',
     str ''Top 5 prioritized changes, ordered by impact. Each should be a concrete, actionable step.'',
     [],
     str ''## Guidelines'',
     str ''- Only cite evidence from the actual logs provided. Do not speculate beyond what the data shows.'',
     str ''- If there are very few sessions or no errors, acknowledge this and provide what analysis you can.'',
     str ''- Format all configuration suggestions as code blocks so users can copy-paste them.'',
     str ''- Be specific: instead of '' @ [34] @ str ''improve error handling'' @ [34] @ str '', say exactly what prompt text to add and where.'',
     str ''- Use the Read, Glob, and Grep tools to look at relevant project files if you need more context.''
    ]"

definition build_system_prompt :: "pystr \<Rightarrow> pystr \<Rightarrow> pystr \<Rightarrow> pystr" where
  "build_system_prompt project_name log_context config_context =
     join nl
       ([str ''You are an expert DevOps analyst reviewing agent session logs for the AutoForge autonomous coding system.'',
         [],
         str ''Your task is to analyze the provided agent session logs and project configuration, then produce a structured report with actionable recommendations for improving autonomous agent execution.'',
         [],
         str ''## Project: '' @ project_name,
         [],
         str ''## Agent Session Logs'',
         [],
         log_context,
         [],
         str ''## Project Configuration'',
         [],
         config_context,
         []]
        @ report_format)"

subsection \<open>Session state\<close>

text \<open>The dictionaries a session yields: \<^verbatim>\<open>{"type": ..., "content": ...}\<close>.\<close>

datatype fragment = Text pystr | AnalysisComplete | ResponseDone | Error pystr

record turn =
  role :: pystr
  content :: pystr
  timestamp :: pystr

text \<open>The options a \<^verbatim>\<open>ClaudeSDKClient\<close> is constructed with.\<close>

record client =
  model :: pystr
  cli_path :: pystr
  system_prompt :: pystr
  allowed_tools :: "pystr list"
  permission_mode :: pystr
  max_turns :: nat
  cwd :: pystr
  settings :: pystr

text \<open>
  The fields of \<^verbatim>\<open>LogReviewSession\<close>. \<^term>\<open>oid\<close> is the identity of the Python
  object. \<^verbatim>\<open>created_at\<close> and \<^verbatim>\<open>_conversation_id\<close> are written once and never
  read, and are left out; \<^verbatim>\<open>_query_lock\<close> is free whenever one call runs alone,
  which is what the functions of the next sections describe; it is a field of the
  state of overlapping calls further below.
\<close>

record session =
  oid :: nat
  project_name :: pystr
  project_dir :: pystr
  client :: "client option"
  messages :: "turn list"
  complete :: bool
  client_entered :: bool
  settings_file :: "pystr option"

definition LogReviewSession :: "nat \<Rightarrow> pystr \<Rightarrow> pystr \<Rightarrow> session" where
  "LogReviewSession i name dir =
     \<lparr>oid = i, project_name = name, project_dir = dir, client = None, messages = [],
      complete = False, client_entered = False, settings_file = None\<rparr>"

text \<open>
  What lies outside the session objects: the settings files on disk, and what was
  done so far, in order: the calls on the model client, the calls of \<^verbatim>\<open>close\<close>,
  the removals of settings files, and the registry's lock with the dictionary
  operations made under it.
\<close>

datatype event =
    WriteSettings pystr
  | Construct nat
  | Enter nat
  | Query nat pystr
  | Exit nat
  | CloseCall nat
  | Unlink pystr
  | RegistryAcquire
  | RegistryPop pystr
  | RegistrySet pystr nat
  | RegistryClear
  | RegistryRelease

record world =
  disk :: "pystr set"
  trace :: "event list"

definition emit :: "event \<Rightarrow> world \<Rightarrow> world" where
  "emit ev w = w\<lparr>trace := trace w @ [ev]\<rparr>"

subsection \<open>close\<close>

text \<open>
  \<^verbatim>\<open>close\<close> swallows what \<^verbatim>\<open>__aexit__\<close> and \<^verbatim>\<open>unlink\<close> raise (a warning is
  logged; the \<^verbatim>\<open>finally\<close> clause clears the client either way). The test
  \<^verbatim>\<open>self._settings_file.exists()\<close> stands outside both handlers: when it raises,
  \<^verbatim>\<open>close\<close> raises. The first component of the result says so.
\<close>

definition close :: "env \<Rightarrow> session \<Rightarrow> world \<Rightarrow> bool \<times> session \<times> world" where
  "close e s w =
     (let w0 = emit (CloseCall (oid s)) w;
          entered = (client s \<noteq> None \<and> client_entered s);
          s1 = (if entered then s\<lparr>client_entered := False, client := None\<rparr> else s);
          w1 = (if entered then emit (Exit (oid s)) w0 else w0)
      in case settings_file s1 of
           None \<Rightarrow> (False, s1, w1)
         | Some p \<Rightarrow>
             if exists_raises e p then (True, s1, w1)
             else if p \<in> disk w1 then
               (if unlink_raises e then (False, s1, emit (Unlink p) w1)
                else (False, s1, (emit (Unlink p) w1)\<lparr>disk := disk w1 - {p}\<rparr>))
             else (False, s1, w1))"

subsection \<open>Queries\<close>

definition append_message :: "env \<Rightarrow> pystr \<Rightarrow> pystr \<Rightarrow> session \<Rightarrow> session" where
  "append_message e r c s =
     s\<lparr>messages := messages s @
          [\<lparr>role = r, content = c, timestamp = now e (length (messages s))\<rparr>]\<rparr>"

text \<open>The non-empty texts of the text blocks of the assistant messages, in order.\<close>

fun block_texts :: "block \<Rightarrow> pystr list" where
  "block_texts (TextBlock t) = (if t \<noteq> [] then [t] else [])"
| "block_texts OtherBlock = []"

fun message_texts :: "sdk_message \<Rightarrow> pystr list" where
  "message_texts (AssistantMessage blocks) = concat (map block_texts blocks)"
| "message_texts OtherMessage = []"

text \<open>
  \<^verbatim>\<open>_query_claude\<close>: the chunks it yields, whether it ends by raising, and the state
  it leaves. Each yielded text is appended to the message log as an assistant turn.
\<close>

definition query_claude ::
  "env \<Rightarrow> pystr \<Rightarrow> session \<Rightarrow> world \<Rightarrow> fragment list \<times> bool \<times> session \<times> world" where
  "query_claude e message s w =
     (case client s of
        None \<Rightarrow> ([], False, s, w)
      | Some c \<Rightarrow>
          (let r = respond e message;
               w1 = emit (Query (oid s) message) w
           in if query_raises r then ([], True, s, w1)
              else (let texts = concat (map message_texts (stream r))
                    in (map Text texts, stream_raises r,
                        fold (append_message e (str ''assistant'')) texts s, w1))))"

subsection \<open>start\<close>

definition LOG_REVIEW_FEATURE_TOOLS :: "pystr list" where
  "LOG_REVIEW_FEATURE_TOOLS =
     [str ''mcp__features__feature_get_stats'', str ''mcp__features__feature_get_summary'']"

definition cli_missing_text :: pystr where
  "cli_missing_text =
     str ''Claude CLI not found. Please install it: npm install -g @anthropic-ai/claude-code''"

definition progress_text :: pystr where
  "progress_text = str ''Analyzing agent session logs...'' @ nl @ nl"

definition no_sessions_text :: pystr where
  "no_sessions_text =
     str ''No agent sessions found for this project. Run the agent at least once to generate logs for analysis.''"

definition init_failed_text :: pystr where
  "init_failed_text = str ''Failed to initialize Claude for log analysis''"

definition analysis_query :: pystr where
  "analysis_query =
     str ''Analyze the agent session logs provided in your system prompt and produce the structured report.''"

definition start_failed_text :: pystr where
  "start_failed_text = str ''Failed to start analysis''"

definition make_client :: "env \<Rightarrow> session \<Rightarrow> pystr \<Rightarrow> pystr \<Rightarrow> pystr \<Rightarrow> client" where
  "make_client e s system_cli prompt file =
     \<lparr>model = model_for_role e, cli_path = system_cli, system_prompt = prompt,
      allowed_tools = [str ''Read'', str ''Glob'', str ''Grep''] @ LOG_REVIEW_FEATURE_TOOLS,
      permission_mode = str ''bypassPermissions'', max_turns = 50, cwd = project_dir s,
      settings = file\<rparr>"

text \<open>
  The last step of \<^verbatim>\<open>start\<close>: the analysis query, inside the \<^verbatim>\<open>try\<close> block.
\<close>

definition start_analysis ::
  "env \<Rightarrow> session \<Rightarrow> world \<Rightarrow> fragment list \<times> session \<times> world" where
  "start_analysis e s w =
     (case query_claude e analysis_query s w of
        (chunks, raised, s1, w1) \<Rightarrow>
          if raised then (chunks @ [Error start_failed_text], s1, w1)
          else (chunks @ [AnalysisComplete, ResponseDone], s1\<lparr>complete := True\<rparr>, w1))"

text \<open>
  From the settings file on: the file is written, the client is constructed and
  entered, and the analysis runs.
\<close>

definition start_client ::
  "env \<Rightarrow> pystr \<Rightarrow> pystr \<Rightarrow> session \<Rightarrow> world \<Rightarrow> fragment list \<times> session \<times> world" where
  "start_client e system_cli prompt s w =
     (let file = settings_path e;
          s1 = s\<lparr>settings_file := Some file\<rparr>;
          w1 = (emit (WriteSettings file) w)\<lparr>disk := insert file (disk w)\<rparr>;
          c = make_client e s system_cli prompt file
      in case client_init e of
           ConstructorRaises \<Rightarrow>
             ([Error init_failed_text], s1, emit (Construct (oid s)) w1)
         | EnterRaises \<Rightarrow>
             ([Error init_failed_text], s1\<lparr>client := Some c\<rparr>,
              emit (Enter (oid s)) (emit (Construct (oid s)) w1))
         | Entered \<Rightarrow>
             start_analysis e (s1\<lparr>client := Some c, client_entered := True\<rparr>)
               (emit (Enter (oid s)) (emit (Construct (oid s)) w1)))"

definition start :: "env \<Rightarrow> session \<Rightarrow> world \<Rightarrow> fragment list \<times> session \<times> world" where
  "start e s w =
     (case which_claude e of
        None \<Rightarrow> ([Error cli_missing_text], s, w)
      | Some system_cli \<Rightarrow>
          (let log_context = gather_log_context e
           in if contains no_sessions_marker log_context
              then ([Text progress_text, Text no_sessions_text, AnalysisComplete],
                    s\<lparr>complete := True\<rparr>, w)
              else (let config_context = read_project_config e;
                        prompt = build_system_prompt (project_name s) log_context config_context
                    in case start_client e system_cli prompt s w of
                         (frags, s1, w1) \<Rightarrow> (Text progress_text # frags, s1, w1))))"

subsection \<open>send_message\<close>

definition not_initialized_text :: pystr where
  "not_initialized_text = str ''Session not initialized. Call start() first.''"

definition follow_up_failed_text :: pystr where
  "follow_up_failed_text = str ''Error while processing follow-up question''"

definition send_message ::
  "env \<Rightarrow> pystr \<Rightarrow> session \<Rightarrow> world \<Rightarrow> fragment list \<times> session \<times> world" where
  "send_message e user_message s w =
     (case client s of
        None \<Rightarrow> ([Error not_initialized_text], s, w)
      | Some c \<Rightarrow>
          (case query_claude e user_message (append_message e (str ''user'') user_message s) w of
             (chunks, raised, s1, w1) \<Rightarrow>
               if raised then (chunks @ [Error follow_up_failed_text], s1, w1)
               else (chunks @ [ResponseDone], s1, w1)))"

definition is_complete :: "session \<Rightarrow> bool" where
  "is_complete s = complete s"

definition get_messages :: "session \<Rightarrow> turn list" where
  "get_messages s = messages s"

subsection \<open>Calls that overlap\<close>

text \<open>
  Several calls of \<^verbatim>\<open>start\<close> and \<^verbatim>\<open>send_message\<close> on one session can be under
  way at once, each a coroutine of the event loop. A coroutine runs alone until it
  awaits or yields; then any other may run. A call is therefore a machine whose steps
  are the pieces of its body between two such points, and a run of the session is a
  sequence of steps, each taken by any one of the calls. \<^verbatim>\<open>_query_lock\<close> is an
  \<^verbatim>\<open>asyncio.Lock\<close>: a call that awaits it goes on when the lock is free, taking it,
  and stays where it is otherwise; leaving the \<^verbatim>\<open>async with\<close> block, by the end of
  the stream or by an exception, releases it.

  The positions of a call: not yet started; suspended at
  \<^verbatim>\<open>async with self._query_lock\<close>; holding the lock, at
  \<^verbatim>\<open>await self.client.query(message)\<close>; inside the loop over
  \<^verbatim>\<open>receive_response()\<close>, with the texts still to be yielded and whether the
  stream raises at its end; finished. What a call yields is recorded with the index
  of the call, a text of \<^verbatim>\<open>_query_claude\<close> as a chunk.
\<close>

datatype call = StartCall | SendCall pystr

datatype position =
    NotStarted
  | AtLock
  | Querying
  | Receiving "pystr list" bool
  | Finished

datatype emission = Chunk nat pystr | Other nat fragment

record system =
  shared :: session
  outside :: world
  locked :: bool
  calls :: "(call \<times> position) list"
  emitted :: "emission list"

text \<open>
  \<^verbatim>\<open>start\<close> up to the analysis query: the fragments yielded so far, and whether the
  call goes on to the query (the client is entered) or has ended.
\<close>

definition start_prologue ::
  "env \<Rightarrow> session \<Rightarrow> world \<Rightarrow> bool \<times> fragment list \<times> session \<times> world" where
  "start_prologue e s w =
     (case which_claude e of
        None \<Rightarrow> (False, [Error cli_missing_text], s, w)
      | Some system_cli \<Rightarrow>
          (let log_context = gather_log_context e
           in if contains no_sessions_marker log_context
              then (False, [Text progress_text, Text no_sessions_text, AnalysisComplete],
                    s\<lparr>complete := True\<rparr>, w)
              else (let config_context = read_project_config e;
                        prompt = build_system_prompt (project_name s) log_context config_context;
                        file = settings_path e;
                        s1 = s\<lparr>settings_file := Some file\<rparr>;
                        w1 = (emit (WriteSettings file) w)\<lparr>disk := insert file (disk w)\<rparr>;
                        c = make_client e s system_cli prompt file
                    in case client_init e of
                         ConstructorRaises \<Rightarrow>
                           (False, [Text progress_text, Error init_failed_text], s1,
                            emit (Construct (oid s)) w1)
                       | EnterRaises \<Rightarrow>
                           (False, [Text progress_text, Error init_failed_text],
                            s1\<lparr>client := Some c\<rparr>,
                            emit (Enter (oid s)) (emit (Construct (oid s)) w1))
                       | Entered \<Rightarrow>
                           (True, [Text progress_text],
                            s1\<lparr>client := Some c, client_entered := True\<rparr>,
                            emit (Enter (oid s)) (emit (Construct (oid s)) w1)))))"

text \<open>
  The query a call sends, the text of its error fragment when the query fails, and
  what it does after the stream: \<^verbatim>\<open>start\<close> yields \<^verbatim>\<open>analysis_complete\<close>, sets
  the completion flag and yields \<^verbatim>\<open>response_done\<close>; \<^verbatim>\<open>send_message\<close> yields
  \<^verbatim>\<open>response_done\<close>.
\<close>

fun query_text :: "call \<Rightarrow> pystr" where
  "query_text StartCall = analysis_query"
| "query_text (SendCall m) = m"

fun failure_text :: "call \<Rightarrow> pystr" where
  "failure_text StartCall = start_failed_text"
| "failure_text (SendCall m) = follow_up_failed_text"

fun closing_fragments :: "call \<Rightarrow> fragment list" where
  "closing_fragments StartCall = [AnalysisComplete, ResponseDone]"
| "closing_fragments (SendCall m) = [ResponseDone]"

fun after_stream :: "call \<Rightarrow> session \<Rightarrow> session" where
  "after_stream StartCall s = s\<lparr>complete := True\<rparr>"
| "after_stream (SendCall m) s = s"

text \<open>Call \<open>i\<close> goes to another position; it yields fragments that are no chunks.\<close>

definition move :: "nat \<Rightarrow> position \<Rightarrow> system \<Rightarrow> system" where
  "move i p st = st\<lparr>calls := (calls st)[i := (fst (calls st ! i), p)]\<rparr>"

definition yield :: "nat \<Rightarrow> fragment list \<Rightarrow> system \<Rightarrow> system" where
  "yield i frags st = st\<lparr>emitted := emitted st @ map (Other i) frags\<rparr>"

text \<open>
  One step of call \<open>i\<close> from its position. From the start it runs to the lock:
  \<^verbatim>\<open>start\<close> through its prologue, \<^verbatim>\<open>send_message\<close> through the test of the
  client and the append of the user turn. At the lock it takes the lock if it is free.
  Holding it, it sends the query; when \<^verbatim>\<open>client.query\<close> raises, the lock is
  released and the error fragment yielded. In the stream it yields one text and
  appends the assistant turn; at the end of the stream the lock is released, and the
  call yields its error fragment if the stream raised and its closing fragments
  otherwise.
\<close>

fun advance :: "env \<Rightarrow> nat \<Rightarrow> call \<Rightarrow> position \<Rightarrow> system \<Rightarrow> system" where
  "advance e i StartCall NotStarted st =
     (case start_prologue e (shared st) (outside st) of
        (go, frags, s1, w1) \<Rightarrow>
          move i (if go then AtLock else Finished)
            (yield i frags (st\<lparr>shared := s1, outside := w1\<rparr>)))"
| "advance e i (SendCall m) NotStarted st =
     (case client (shared st) of
        None \<Rightarrow> move i Finished (yield i [Error not_initialized_text] st)
      | Some c \<Rightarrow>
          move i AtLock (st\<lparr>shared := append_message e (str ''user'') m (shared st)\<rparr>))"
| "advance e i c AtLock st =
     (if locked st then st else move i Querying (st\<lparr>locked := True\<rparr>))"
| "advance e i c Querying st =
     (case client (shared st) of
        None \<Rightarrow> move i (Receiving [] False) st
      | Some cl \<Rightarrow>
          (let r = respond e (query_text c);
               st1 = st\<lparr>outside := emit (Query (oid (shared st)) (query_text c)) (outside st)\<rparr>
           in if query_raises r
              then move i Finished (yield i [Error (failure_text c)] (st1\<lparr>locked := False\<rparr>))
              else move i (Receiving (concat (map message_texts (stream r))) (stream_raises r))
                     st1))"
| "advance e i c (Receiving (t # ts) raises) st =
     move i (Receiving ts raises)
       (st\<lparr>shared := append_message e (str ''assistant'') t (shared st),
           emitted := emitted st @ [Chunk i t]\<rparr>)"
| "advance e i c (Receiving [] raises) st =
     (if raises
      then move i Finished (yield i [Error (failure_text c)] (st\<lparr>locked := False\<rparr>))
      else move i Finished
             (yield i (closing_fragments c)
                (st\<lparr>locked := False, shared := after_stream c (shared st)\<rparr>)))"
| "advance e i c Finished st = st"

definition step :: "env \<Rightarrow> nat \<Rightarrow> system \<Rightarrow> system" where
  "step e i st =
     (if i < length (calls st)
      then advance e i (fst (calls st ! i)) (snd (calls st ! i)) st
      else st)"

text \<open>
  A run: the calls take their steps in the order of a schedule, a list of call
  indices. A call that has finished, or that waits at the lock while it is held, stays
  as it is when its turn comes. At the beginning no call has started and the lock is
  free.
\<close>

fun run :: "env \<Rightarrow> nat list \<Rightarrow> system \<Rightarrow> system" where
  "run e [] st = st"
| "run e (i # schedule) st = run e schedule (step e i st)"

definition begin_calls :: "session \<Rightarrow> world \<Rightarrow> call list \<Rightarrow> system" where
  "begin_calls s w cs =
     \<lparr>shared = s, outside = w, locked = False,
      calls = map (\<lambda>c. (c, NotStarted)) cs, emitted = []\<rparr>"

subsection \<open>The registry\<close>

text \<open>
  \<^verbatim>\<open>_log_review_sessions\<close>, a dictionary in insertion order, and the next free object
  identity. A block \<^verbatim>\<open>with _log_review_sessions_lock:\<close> holds no \<^verbatim>\<open>await\<close>: it
  runs as one step, and the trace records the lock being taken, the dictionary
  operations made under it, and the lock being released. What a function does after
  the block comes later in the trace.
\<close>

definition with_registry_lock :: "event list \<Rightarrow> world \<Rightarrow> world" where
  "with_registry_lock ops w =
     w\<lparr>trace := trace w @ [RegistryAcquire] @ ops @ [RegistryRelease]\<rparr>"

record registry =
  sessions :: "(pystr \<times> session) list"
  next_oid :: nat

text \<open>\<^verbatim>\<open>d.pop(key, None)\<close>\<close>

definition pop :: "pystr \<Rightarrow> (pystr \<times> session) list \<Rightarrow> session option \<times> (pystr \<times> session) list" where
  "pop k d = (map_of d k, filter (\<lambda>kv. fst kv \<noteq> k) d)"

text \<open>The value \<^verbatim>\<open>get_log_review_session\<close> returns; its block only reads.\<close>

definition get_log_review_session :: "pystr \<Rightarrow> registry \<Rightarrow> session option" where
  "get_log_review_session name r = map_of (sessions r) name"

text \<open>
  \<^verbatim>\<open>try: await session.close() except Exception: logger.warning(...)\<close>: what
  \<^verbatim>\<open>close\<close> raises is dropped, and the session object is no longer referenced.
\<close>

definition close_logged :: "env \<Rightarrow> session \<Rightarrow> world \<Rightarrow> world" where
  "close_logged e s w = (case close e s w of (raised, s1, w1) \<Rightarrow> w1)"

definition create_log_review_session ::
  "env \<Rightarrow> pystr \<Rightarrow> pystr \<Rightarrow> registry \<Rightarrow> world \<Rightarrow> session \<times> registry \<times> world" where
  "create_log_review_session e name dir r w =
     (case pop name (sessions r) of
        (old_session, d) \<Rightarrow>
          (let s = LogReviewSession (next_oid r) name dir;
               r1 = r\<lparr>sessions := d @ [(name, s)], next_oid := Suc (next_oid r)\<rparr>;
               w1 = with_registry_lock [RegistryPop name, RegistrySet name (oid s)] w
           in case old_session of
                None \<Rightarrow> (s, r1, w1)
              | Some old \<Rightarrow> (s, r1, close_logged e old w1)))"

definition remove_log_review_session ::
  "env \<Rightarrow> pystr \<Rightarrow> registry \<Rightarrow> world \<Rightarrow> registry \<times> world" where
  "remove_log_review_session e name r w =
     (case pop name (sessions r) of
        (found, d) \<Rightarrow>
          (let w1 = with_registry_lock [RegistryPop name] w
           in case found of
                None \<Rightarrow> (r\<lparr>sessions := d\<rparr>, w1)
              | Some s \<Rightarrow> (r\<lparr>sessions := d\<rparr>, close_logged e s w1)))"

definition cleanup_all_log_review_sessions ::
  "env \<Rightarrow> registry \<Rightarrow> world \<Rightarrow> registry \<times> world" where
  "cleanup_all_log_review_sessions e r w =
     (let sessions_to_close = map snd (sessions r);
          w1 = with_registry_lock [RegistryClear] w
      in (r\<lparr>sessions := []\<rparr>, fold (close_logged e) sessions_to_close w1))"

subsection \<open>Reading fragments and traces\<close>

fun is_text :: "fragment \<Rightarrow> bool" where
  "is_text (Text t) = True"
| "is_text AnalysisComplete = False"
| "is_text ResponseDone = False"
| "is_text (Error t) = False"

fun is_error :: "fragment \<Rightarrow> bool" where
  "is_error (Error t) = True"
| "is_error (Text t) = False"
| "is_error AnalysisComplete = False"
| "is_error ResponseDone = False"

text \<open>The sessions whose \<^verbatim>\<open>close\<close> was called, in the order of the calls.\<close>

fun close_call :: "event \<Rightarrow> nat list" where
  "close_call (CloseCall i) = [i]"
| "close_call ev = []"

definition close_calls :: "event list \<Rightarrow> nat list" where
  "close_calls evs = concat (map close_call evs)"

text \<open>The sessions whose client was left with \<^verbatim>\<open>__aexit__\<close>, in order.\<close>

fun exit_call :: "event \<Rightarrow> nat list" where
  "exit_call (Exit i) = [i]"
| "exit_call ev = []"

definition exit_calls :: "event list \<Rightarrow> nat list" where
  "exit_calls evs = concat (map exit_call evs)"

text \<open>The events of the registry's lock and dictionary.\<close>

fun is_registry_event :: "event \<Rightarrow> bool" where
  "is_registry_event RegistryAcquire = True"
| "is_registry_event (RegistryPop k) = True"
| "is_registry_event (RegistrySet k i) = True"
| "is_registry_event RegistryClear = True"
| "is_registry_event RegistryRelease = True"
| "is_registry_event ev = False"

text \<open>A session whose client is entered: \<^verbatim>\<open>self.client and self._client_entered\<close>.\<close>

definition is_entered :: "session \<Rightarrow> bool" where
  "is_entered s = (client s \<noteq> None \<and> client_entered s)"

text \<open>The turns of the message log that the user wrote.\<close>

definition user_turns :: "turn list \<Rightarrow> turn list" where
  "user_turns ts = filter (\<lambda>t. role t = str ''user'') ts"

text \<open>
  What one query adds to a session: the texts it yields (none when
  \<^verbatim>\<open>client.query\<close> raises), whether it ends by raising, and the turns with role
  \<^term>\<open>r\<close> that a list of texts becomes when the log already holds \<^term>\<open>n\<close> turns.
\<close>

definition answer_texts :: "env \<Rightarrow> pystr \<Rightarrow> pystr list" where
  "answer_texts e m =
     (if query_raises (respond e m) then []
      else concat (map message_texts (stream (respond e m))))"

definition query_fails :: "env \<Rightarrow> pystr \<Rightarrow> bool" where
  "query_fails e m = (query_raises (respond e m) \<or> stream_raises (respond e m))"

fun turns_from :: "env \<Rightarrow> pystr \<Rightarrow> nat \<Rightarrow> pystr list \<Rightarrow> turn list" where
  "turns_from e r n [] = []"
| "turns_from e r n (t # ts) =
     \<lparr>role = r, content = t, timestamp = now e n\<rparr> # turns_from e r (Suc n) ts"


fun chunk_owner :: "emission \<Rightarrow> nat list" where
  "chunk_owner (Chunk i t) = [i]"
| "chunk_owner (Other i f) = []"

definition chunk_owners :: "emission list \<Rightarrow> nat list" where
  "chunk_owners ems = concat (map chunk_owner ems)"

fun fragment_of :: "emission \<Rightarrow> fragment" where
  "fragment_of (Chunk i t) = Text t"
| "fragment_of (Other i f) = f"



definition position_of :: "system \<Rightarrow> nat \<Rightarrow> position" where
  "position_of st i = snd (calls st ! i)"




subsection \<open>Example inputs\<close>

definition quiet_response :: response where
  "quiet_response = \<lparr>query_raises = False, stream = [], stream_raises = False\<rparr>"

text \<open>A project whose agent never ran: the CLI is installed, no session is recorded.\<close>

definition fresh_project :: env where
  "fresh_project =
     \<lparr>which_claude = Some (str ''/usr/local/bin/claude''),
      get_sessions = (\<lambda>n. []),
      get_session_logs = (\<lambda>sid t n. []),
      iso_minutes = (\<lambda>a b. None),
      allowed_commands_yaml = Missing,
      coding_prompt_md = Missing,
      initializer_prompt_md = Missing,
      claude_md = Missing,
      settings_path = str ''/srv/demo/.autoforge/.claude_settings.expand.4f1c.json'',
      model_for_role = str ''sonnet'',
      client_init = Entered,
      respond = (\<lambda>m. quiet_response),
      now = (\<lambda>n. (str ''2025-01-01T00:00:00'')),
      exists_raises = (\<lambda>p. False),
      unlink_raises = False\<rparr>"

definition demo_session :: session where
  "demo_session = LogReviewSession 0 (str ''demo'') (str ''/srv/demo'')"

definition empty_world :: world where
  "empty_world = \<lparr>disk = {}, trace = []\<rparr>"


text \<open>A project with one recorded session and no log lines.\<close>

definition recorded_session :: session_row where
  "recorded_session =
     \<lparr>s_id = 7, s_status = PyStr (str ''completed''), s_yolo_mode = PyBool False,
      s_model = Some (PyStr (str ''sonnet'')), s_max_concurrency = Some (PyInt 1),
      s_started_at = Some (PyStr (str ''2025-01-01T10:00:00'')),
      s_ended_at = Some (PyStr (str ''2025-01-01T10:30:00''))\<rparr>"

definition recorded_project :: env where
  "recorded_project =
     fresh_project\<lparr>get_sessions := (\<lambda>n. [recorded_session]),
                   iso_minutes := (\<lambda>a b. Some (str ''30''))\<rparr>"


text \<open>The same project when the constructor of the client raises, and when entering it raises.\<close>

definition broken_constructor_project :: env where
  "broken_constructor_project = recorded_project\<lparr>client_init := ConstructorRaises\<rparr>"

definition broken_enter_project :: env where
  "broken_enter_project = recorded_project\<lparr>client_init := EnterRaises\<rparr>"

text \<open>The same project with one error line that quotes the marker.\<close>

definition marker_log :: log_row where
  "marker_log =
     \<lparr>l_content = str ''unexpected tag <no_sessions> in agent output'',
      l_timestamp = Some (PyStr (str ''2025-01-01T10:05:00'')),
      l_agent_name = Some (PyStr (str ''coder''))\<rparr>"

definition quoting_project :: env where
  "quoting_project =
     recorded_project\<lparr>get_session_logs :=
       (\<lambda>sid t n. if sid = 7 \<and> t = str ''error'' then [marker_log] else [])\<rparr>"

text \<open>
  A session whose client is entered, and a project whose client answers every query
  with one message (a text, a tool block, an empty text) and then raises.
\<close>

definition live_session :: session where
  "live_session =
     demo_session\<lparr>client := Some (make_client recorded_project demo_session
                       (str ''/usr/local/bin/claude'') (str ''You are an expert DevOps analyst'')
                       (settings_path recorded_project)),
                  client_entered := True,
                  settings_file := Some (settings_path recorded_project),
                  complete := True\<rparr>"

definition interrupted_project :: env where
  "interrupted_project =
     recorded_project\<lparr>respond := (\<lambda>m.
       \<lparr>query_raises = False,
        stream = [AssistantMessage [TextBlock (str ''Two commands were denied.''), OtherBlock,
                                    TextBlock []]],
        stream_raises = True\<rparr>)\<rparr>"

text \<open>
  A registry with two sessions. Each has an entered client and a settings file on
  disk. In \<open>stat_error_project\<close> \<^verbatim>\<open>Path.exists\<close> raises for the first one's path,
  so closing that session raises.
\<close>

definition demo_client :: client where
  "demo_client =
     make_client fresh_project demo_session (str ''/usr/local/bin/claude'')
       (str ''You are an expert DevOps analyst'') (str ''/srv/demo/.autoforge/settings.0.json'')"

definition old_session :: session where
  "old_session =
     (LogReviewSession 0 (str ''demo'') (str ''/srv/demo''))
       \<lparr>client := Some demo_client, client_entered := True,
        settings_file := Some (str ''/srv/demo/.autoforge/settings.0.json'')\<rparr>"

definition other_session :: session where
  "other_session =
     (LogReviewSession 1 (str ''other'') (str ''/srv/other''))
       \<lparr>client := Some demo_client, client_entered := True,
        settings_file := Some (str ''/srv/other/.autoforge/settings.1.json'')\<rparr>"

definition two_sessions :: registry where
  "two_sessions =
     \<lparr>sessions = [(str ''demo'', old_session), (str ''other'', other_session)], next_oid = 2\<rparr>"

definition no_sessions_registered :: registry where
  "no_sessions_registered = \<lparr>sessions = [], next_oid = 0\<rparr>"

definition two_files :: world where
  "two_files =
     \<lparr>disk = {str ''/srv/demo/.autoforge/settings.0.json'',
              str ''/srv/other/.autoforge/settings.1.json''},
      trace = []\<rparr>"

definition stat_error_project :: env where
  "stat_error_project =
     fresh_project\<lparr>exists_raises := (\<lambda>p. p = str ''/srv/demo/.autoforge/settings.0.json'')\<rparr>"




section \<open>Properties\<close>

subsection \<open>Strings\<close>

lemma str_eq_iff [simp]: "(str a = str b) = (a = b)"
  by (simp add: str_def inj_map_eq_map inj_on_def)

lemma str_eq_Nil [simp]: "(str a = []) = (a = [])"
  by (simp add: str_def)

lemma contains_Nil: "contains [] ys"
  by (cases ys) simp_all

lemma starts_with_append: "starts_with n xs \<Longrightarrow> starts_with n (xs @ ys)"
  by (induction n xs rule: starts_with.induct) simp_all

lemma contains_append_left: "contains n xs \<Longrightarrow> contains n (xs @ ys)"
proof (induction xs)
  case Nil
  then show ?case by (simp add: contains_Nil)
next
  case (Cons x xs)
  then show ?case
    using starts_with_append [of n "x # xs" ys] by auto
qed

lemma contains_append_right: "contains n ys \<Longrightarrow> contains n (xs @ ys)"
  by (induction xs) simp_all

lemma contains_join: "x \<in> set xs \<Longrightarrow> contains n x \<Longrightarrow> contains n (join sep xs)"
proof (induction sep xs rule: join.induct)
  case (1 sep)
  then show ?case by simp
next
  case (2 sep y)
  then show ?case by simp
next
  case (3 sep y z zs)
  then show ?case
    by (auto intro: contains_append_left contains_append_right)
qed

lemma starts_with_refl: "starts_with x x"
  by (induction x) simp_all

lemma contains_refl: "contains x x"
  by (cases x) (simp_all add: starts_with_refl)

subsection \<open>The no-sessions branch of start\<close>

lemma marker_in_no_sessions_context: "contains no_sessions_marker no_sessions_context"
  by (simp add: no_sessions_marker_def no_sessions_context_def nl_def str_def)

lemma gather_no_sessions: "get_sessions e 10 = [] \<Longrightarrow> gather_log_context e = no_sessions_context"
  by (simp add: gather_log_context_def)

lemma start_no_sessions:
  assumes "which_claude e = Some system_cli" and "get_sessions e 10 = []"
  shows "start e s w =
    ([Text progress_text, Text no_sessions_text, AnalysisComplete], s\<lparr>complete := True\<rparr>, w)"
  using assms by (simp add: start_def gather_no_sessions marker_in_no_sessions_context)

lemma fresh_project_start:
  "start fresh_project demo_session empty_world =
    ([Text progress_text, Text no_sessions_text, AnalysisComplete],
     demo_session\<lparr>complete := True\<rparr>, empty_world)"
  by (rule start_no_sessions) (simp_all add: fresh_project_def)

text \<open>
  C2, as amended. For every project with zero recorded sessions, when the CLI is found,
  \<^verbatim>\<open>start()\<close> yields exactly three fragments: the progress text
  "Analyzing agent session logs...", then one text with the no-sessions notice, then
  \<^verbatim>\<open>analysis_complete\<close>. It sets the completion flag and changes nothing else: the
  client stays unset, no settings file is written, and the trace gains no call, so the
  model client is neither constructed nor queried.
\<close>

theorem start_zero_sessions:
  assumes "which_claude e = Some system_cli" and "get_sessions e 10 = []"
  shows "start e s w =
    ([Text progress_text, Text no_sessions_text, AnalysisComplete], s\<lparr>complete := True\<rparr>, w)"
  using assms by (rule start_no_sessions)

theorem start_zero_sessions_witness:
  "which_claude fresh_project = Some (str ''/usr/local/bin/claude'')
   \<and> get_sessions fresh_project 10 = []
   \<and> start fresh_project demo_session empty_world =
       ([Text progress_text, Text no_sessions_text, AnalysisComplete],
        demo_session\<lparr>complete := True\<rparr>, empty_world)"
proof -
  have cli: "which_claude fresh_project = Some (str ''/usr/local/bin/claude'')"
    by (simp add: fresh_project_def)
  have none: "get_sessions fresh_project 10 = []"
    by (simp add: fresh_project_def)
  from start_zero_sessions [OF cli none, of demo_session empty_world] cli none
  show ?thesis by simp
qed

text \<open>
  C2 as the spec states it fails: on a project with zero recorded sessions the stream
  holds two text fragments, not one, because the progress text comes first.
\<close>

theorem start_zero_sessions_two_texts:
  "fst (start fresh_project demo_session empty_world) =
     [Text progress_text, Text no_sessions_text, AnalysisComplete]
   \<and> length (filter is_text (fst (start fresh_project demo_session empty_world))) = 2"
  by (simp add: fresh_project_start)

text \<open>
  C1 at the failing input. On a project with zero recorded sessions the stream of
  \<^verbatim>\<open>start()\<close> does not end in an error fragment, and its last fragment is
  \<^verbatim>\<open>analysis_complete\<close>: no \<^verbatim>\<open>response_done\<close> follows.
\<close>

theorem start_no_sessions_last_fragment:
  "last (fst (start fresh_project demo_session empty_world)) = AnalysisComplete
   \<and> \<not> is_error (last (fst (start fresh_project demo_session empty_world)))
   \<and> ResponseDone \<notin> set (fst (start fresh_project demo_session empty_world))"
  by (simp add: fresh_project_start)

text \<open>
  C3 at the failing input. After \<^verbatim>\<open>start()\<close> took the no-sessions branch the
  stream held \<^verbatim>\<open>analysis_complete\<close> and the completion flag is set, yet the client is
  unset, and a following \<^verbatim>\<open>send_message\<close> yields the not-initialized error alone.
\<close>

theorem follow_up_after_no_sessions_rejected:
  "(case start fresh_project demo_session empty_world of
      (frags, s1, w1) \<Rightarrow>
        AnalysisComplete \<in> set frags \<and> is_complete s1 \<and> client s1 = None
        \<and> send_message fresh_project (str ''Which commands were denied?'') s1 w1 =
            ([Error not_initialized_text], s1, w1))"
  unfolding fresh_project_start
  by (simp add: send_message_def is_complete_def demo_session_def LogReviewSession_def)

subsection \<open>Truncation of the configuration files\<close>










subsection \<open>The marker decides the branch\<close>

lemma contains_error_line:
  "contains n (take 500 (l_content err)) \<Longrightarrow> contains n (error_line sid err)"
  unfolding error_line_def
  by (intro contains_append_right)

lemma error_lines_first:
  assumes "get_session_logs e sid (str ''error'') 50 = err # errs"
  shows "\<exists>rest. error_lines e (sid # ids) = error_line sid err # rest"
  using assms by (simp add: error_lines_def)

lemma contains_errors_section:
  assumes "els = l # rest" and "contains n l"
  shows "contains n (str ''<errors>'' @ nl @ join nl (take 200 els) @ nl @ str ''</errors>'')"
proof -
  have "l \<in> set (take 200 els)"
    using assms(1) by (simp add: take_Cons')
  then have "contains n (join nl (take 200 els))"
    using assms(2) by (rule contains_join)
  then have "contains n (join nl (take 200 els) @ nl @ str ''</errors>'')"
    by (rule contains_append_left)
  then have "contains n (nl @ join nl (take 200 els) @ nl @ str ''</errors>'')"
    by (rule contains_append_right)
  then show ?thesis
    by (rule contains_append_right)
qed

lemma gather_contains_error_text:
  assumes "get_sessions e 10 = s0 # others"
    and "get_session_logs e (s_id s0) (str ''error'') 50 = err # errs"
    and "contains n (take 500 (l_content err))"
  shows "contains n (gather_log_context e)"
proof -
  obtain rest where els:
    "error_lines e (map s_id (take 5 (s0 # others))) = error_line (s_id s0) err # rest"
    using error_lines_first [OF assms(2), of "map s_id (take 4 others)"] by (auto simp: take_Cons')
  have sec: "contains n (str ''<errors>'' @ nl @
      join nl (take 200 (error_lines e (map s_id (take 5 (s0 # others))))) @ nl @ str ''</errors>'')"
    using els contains_error_line [OF assms(3)] by (rule contains_errors_section)
  have "(str ''<errors>'') @ nl @
      join nl (take 200 (error_lines e (map s_id (take 5 (s0 # others))))) @ nl @ str ''</errors>''
      \<in> set (log_sections e (s0 # others))"
    using els by (simp add: log_sections_def Let_def)
  then have "contains n (join (nl @ nl) (log_sections e (s0 # others)))"
    using sec by (rule contains_join)
  then show ?thesis
    using assms(1) by (simp add: gather_log_context_def)
qed

lemma start_marker:
  assumes "which_claude e = Some system_cli"
    and "contains no_sessions_marker (gather_log_context e)"
  shows "start e s w =
    ([Text progress_text, Text no_sessions_text, AnalysisComplete], s\<lparr>complete := True\<rparr>, w)"
  using assms by (simp add: start_def)

text \<open>
  C9. \<^verbatim>\<open>start()\<close> chooses the no-sessions branch by searching the assembled log
  context for the marker, not by counting sessions. So for a project with at least one
  recorded session, if the newest session's first error line holds the marker within
  its first 500 characters, \<^verbatim>\<open>start()\<close> yields the progress text, the no-sessions
  notice and \<^verbatim>\<open>analysis_complete\<close>, sets the completion flag and touches nothing
  else: no settings file, no client, no query.
\<close>

theorem start_marker_in_error_log:
  assumes "which_claude e = Some system_cli"
    and "get_sessions e 10 = s0 # others"
    and "get_session_logs e (s_id s0) (str ''error'') 50 = err # errs"
    and "contains no_sessions_marker (take 500 (l_content err))"
  shows "start e s w =
    ([Text progress_text, Text no_sessions_text, AnalysisComplete], s\<lparr>complete := True\<rparr>, w)"
  using assms(1) gather_contains_error_text [OF assms(2,3,4)] by (rule start_marker)

theorem start_marker_in_error_log_witness:
  "which_claude quoting_project = Some (str ''/usr/local/bin/claude'')
   \<and> get_sessions quoting_project 10 = [recorded_session]
   \<and> get_session_logs quoting_project (s_id recorded_session) (str ''error'') 50 = [marker_log]
   \<and> contains no_sessions_marker (take 500 (l_content marker_log))
   \<and> start quoting_project demo_session empty_world =
       ([Text progress_text, Text no_sessions_text, AnalysisComplete],
        demo_session\<lparr>complete := True\<rparr>, empty_world)"
proof -
  have cli: "which_claude quoting_project = Some (str ''/usr/local/bin/claude'')"
    by (simp add: quoting_project_def recorded_project_def fresh_project_def)
  have ss: "get_sessions quoting_project 10 = recorded_session # []"
    by (simp add: quoting_project_def recorded_project_def)
  have logs: "get_session_logs quoting_project (s_id recorded_session) (str ''error'') 50 = marker_log # []"
    by (simp add: quoting_project_def recorded_session_def)
  have mk: "contains no_sessions_marker (take 500 (l_content marker_log))"
    by code_simp
  from start_marker_in_error_log [OF cli ss logs mk, of demo_session empty_world] cli ss logs mk
  show ?thesis by simp
qed

subsection \<open>A client that cannot be opened\<close>

lemma start_client_init_fails:
  assumes "client_init e \<noteq> Entered"
  shows "(case start_client e system_cli prompt s w of
            (frags, s1, w1) \<Rightarrow>
              frags = [Error init_failed_text]
              \<and> settings_file s1 = Some (settings_path e)
              \<and> settings_path e \<in> disk w1
              \<and> Unlink (settings_path e) \<notin> set (trace w1) - set (trace w)
              \<and> client_entered s1 = client_entered s)"
  using assms
  by (cases "client_init e") (simp_all add: start_client_def emit_def Let_def)

lemma start_init_fails:
  assumes "which_claude e = Some system_cli"
    and "\<not> contains no_sessions_marker (gather_log_context e)"
    and "client_init e \<noteq> Entered"
  shows "(case start e s w of
            (frags, s1, w1) \<Rightarrow>
              frags = [Text progress_text, Error init_failed_text]
              \<and> settings_file s1 = Some (settings_path e)
              \<and> settings_path e \<in> disk w1
              \<and> Unlink (settings_path e) \<notin> set (trace w1) - set (trace w)
              \<and> client_entered s1 = client_entered s)"
proof -
  let ?prompt = "build_system_prompt (project_name s) (gather_log_context e) (read_project_config e)"
  from start_client_init_fails [OF assms(3), where system_cli = system_cli
      and prompt = ?prompt and s = s and w = w]
  show ?thesis
    using assms(1,2) by (simp add: start_def Let_def split: prod.splits)
qed

lemma close_disk:
  assumes "settings_file s = Some p"
  shows "(case close e s w of
            (raised, s2, w2) \<Rightarrow>
              raised = exists_raises e p
              \<and> (p \<in> disk w2) = (p \<in> disk w \<and> (exists_raises e p \<or> unlink_raises e)))"
  using assms by (auto simp add: close_def emit_def Let_def)

text \<open>
  C5, as amended. When the sessions are there and the constructor of the client or its
  \<^verbatim>\<open>__aenter__\<close> raises, \<^verbatim>\<open>start()\<close> yields the progress text and one error
  fragment and ends. No connection was entered: the entered flag is as before. The
  settings file written before the attempt is still on disk and still recorded in the
  session; a later \<^verbatim>\<open>close()\<close> removes it, unless the existence test raises (then
  \<^verbatim>\<open>close()\<close> raises) or \<^verbatim>\<open>unlink\<close> raises.
\<close>

theorem failed_open_keeps_settings_file:
  assumes "which_claude e = Some system_cli"
    and "\<not> contains no_sessions_marker (gather_log_context e)"
    and "client_init e \<noteq> Entered"
  shows "(case start e s w of
            (frags, s1, w1) \<Rightarrow>
              frags = [Text progress_text, Error init_failed_text]
              \<and> client_entered s1 = client_entered s
              \<and> settings_file s1 = Some (settings_path e)
              \<and> settings_path e \<in> disk w1
              \<and> (case close e s1 w1 of
                    (raised, s2, w2) \<Rightarrow>
                      raised = exists_raises e (settings_path e)
                      \<and> (settings_path e \<in> disk w2) =
                          (exists_raises e (settings_path e) \<or> unlink_raises e)))"
proof (cases "start e s w")
  case (fields frags s1 w1)
  from start_init_fails [OF assms, where s = s and w = w] fields
  have 1: "frags = [Text progress_text, Error init_failed_text]"
    and 2: "client_entered s1 = client_entered s"
    and 3: "settings_file s1 = Some (settings_path e)"
    and 4: "settings_path e \<in> disk w1"
    by simp_all
  from close_disk [OF 3, where e = e and w = w1] 4
  have 5: "(case close e s1 w1 of
              (raised, s2, w2) \<Rightarrow>
                raised = exists_raises e (settings_path e)
                \<and> (settings_path e \<in> disk w2) =
                    (exists_raises e (settings_path e) \<or> unlink_raises e))"
    by (simp split: prod.splits)
  show ?thesis
    using fields 1 2 3 4 5 by simp
qed

theorem failed_open_keeps_settings_file_witness:
  "which_claude broken_enter_project = Some (str ''/usr/local/bin/claude'')
   \<and> \<not> contains no_sessions_marker (gather_log_context broken_enter_project)
   \<and> client_init broken_enter_project \<noteq> Entered
   \<and> (case start broken_enter_project demo_session empty_world of
        (frags, s1, w1) \<Rightarrow>
          frags = [Text progress_text, Error init_failed_text]
          \<and> \<not> client_entered s1
          \<and> settings_file s1 = Some (settings_path broken_enter_project)
          \<and> settings_path broken_enter_project \<in> disk w1
          \<and> (case close broken_enter_project s1 w1 of
                (raised, s2, w2) \<Rightarrow> \<not> raised \<and> settings_path broken_enter_project \<notin> disk w2))"
proof -
  have cli: "which_claude broken_enter_project = Some (str ''/usr/local/bin/claude'')"
    by (simp add: broken_enter_project_def recorded_project_def fresh_project_def)
  have nm: "\<not> contains no_sessions_marker (gather_log_context broken_enter_project)"
    by code_simp
  have ci: "client_init broken_enter_project \<noteq> Entered"
    by (simp add: broken_enter_project_def)
  have ex: "\<not> exists_raises broken_enter_project (settings_path broken_enter_project)"
    "\<not> unlink_raises broken_enter_project"
    by (simp_all add: broken_enter_project_def recorded_project_def fresh_project_def)
  have fresh: "\<not> client_entered demo_session"
    by (simp add: demo_session_def LogReviewSession_def)
  from failed_open_keeps_settings_file [OF cli nm ci, where s = demo_session and w = empty_world]
    cli nm ci ex fresh
  show ?thesis by (simp split: prod.splits)
qed

text \<open>
  C5 as the spec states it fails: the constructor raises, \<^verbatim>\<open>start()\<close> ends with
  the error fragment, and the settings file it wrote is on disk; the trace holds the
  write and the constructor call and no \<^verbatim>\<open>unlink\<close>.
\<close>

theorem constructor_failure_leaves_settings_file:
  "(case start broken_constructor_project demo_session empty_world of
      (frags, s1, w1) \<Rightarrow>
        frags = [Text progress_text, Error init_failed_text]
        \<and> client s1 = None
        \<and> settings_file s1 = Some (settings_path broken_constructor_project)
        \<and> settings_path broken_constructor_project \<in> disk w1
        \<and> trace w1 = [WriteSettings (settings_path broken_constructor_project), Construct 0])"
proof -
  have cli: "which_claude broken_constructor_project = Some (str ''/usr/local/bin/claude'')"
    by (simp add: broken_constructor_project_def recorded_project_def fresh_project_def)
  have nm: "\<not> contains no_sessions_marker (gather_log_context broken_constructor_project)"
    by code_simp
  have ci: "client_init broken_constructor_project = ConstructorRaises"
    by (simp add: broken_constructor_project_def)
  show ?thesis
    using cli nm ci
    by (simp add: start_def start_client_def Let_def emit_def demo_session_def
        LogReviewSession_def empty_world_def)
qed

subsection \<open>Follow-up messages\<close>

lemma messages_fold_append:
  "messages (fold (append_message e r) ts s) = messages s @ turns_from e r (length (messages s)) ts"
  by (induction ts arbitrary: s) (simp_all add: append_message_def)

lemma user_turns_turns_from:
  "r \<noteq> (str ''user'') \<Longrightarrow> user_turns (turns_from e r n ts) = []"
  by (induction ts arbitrary: n) (simp_all add: user_turns_def)

lemma user_turns_append: "user_turns (xs @ ys) = user_turns xs @ user_turns ys"
  by (simp add: user_turns_def)

lemma query_claude_with_client:
  assumes "client s = Some c"
  shows "query_claude e m s w =
    (map Text (answer_texts e m), query_fails e m,
     fold (append_message e (str ''assistant'')) (answer_texts e m) s,
     emit (Query (oid s) m) w)"
  using assms by (simp add: query_claude_def answer_texts_def query_fails_def Let_def)

lemma send_message_with_client:
  assumes "client s = Some c"
  shows "send_message e m s w =
    (map Text (answer_texts e m)
       @ [if query_fails e m then Error follow_up_failed_text else ResponseDone],
     fold (append_message e (str ''assistant'')) (answer_texts e m) (append_message e (str ''user'') m s),
     emit (Query (oid s) m) w)"
proof -
  have c: "client (append_message e (str ''user'') m s) = Some c"
    using assms by (simp add: append_message_def)
  have o: "oid (append_message e (str ''user'') m s) = oid s"
    by (simp add: append_message_def)
  show ?thesis
    using assms by (simp add: send_message_def query_claude_with_client [OF c] o)
qed

text \<open>
  C10. On a session with a client, \<^verbatim>\<open>send_message\<close> appends the user turn before
  the query: the message log afterwards is the old log, the user turn, then one
  assistant turn for each text the query yielded. The user turns grow by exactly that
  one entry whether the query succeeds or raises; when it raises the stream ends with
  the error fragment and the user turn stays. The query is issued in either case.
\<close>

theorem send_message_keeps_user_turn:
  assumes "client s = Some c"
  shows "(case send_message e m s w of
            (frags, s1, w1) \<Rightarrow>
              messages s1 =
                messages s
                @ [\<lparr>role = str ''user'', content = m, timestamp = now e (length (messages s))\<rparr>]
                @ turns_from e (str ''assistant'') (Suc (length (messages s))) (answer_texts e m)
              \<and> user_turns (messages s1) =
                  user_turns (messages s)
                  @ [\<lparr>role = str ''user'', content = m, timestamp = now e (length (messages s))\<rparr>]
              \<and> length (user_turns (messages s1)) = Suc (length (user_turns (messages s)))
              \<and> last frags = (if query_fails e m then Error follow_up_failed_text else ResponseDone)
              \<and> Query (oid s) m \<in> set (trace w1))"
proof -
  let ?u = "\<lparr>role = str ''user'', content = m, timestamp = now e (length (messages s))\<rparr>"
  let ?s1 = "fold (append_message e (str ''assistant'')) (answer_texts e m) (append_message e (str ''user'') m s)"
  have m1: "messages ?s1 =
      messages s @ [?u] @ turns_from e (str ''assistant'') (Suc (length (messages s))) (answer_texts e m)"
    by (simp add: messages_fold_append append_message_def)
  have u: "user_turns [?u] = [?u]"
    by (simp add: user_turns_def)
  have na: "(str ''assistant'') \<noteq> (str ''user'')"
    by simp
  have m2: "user_turns (messages ?s1) = user_turns (messages s) @ [?u]"
    unfolding m1 user_turns_append u user_turns_turns_from [OF na] by simp
  have m3: "length (user_turns (messages ?s1)) = Suc (length (user_turns (messages s)))"
    unfolding m2 by simp
  show ?thesis
    unfolding send_message_with_client [OF assms]
    using m1 m2 m3 by (simp add: emit_def)
qed

theorem send_message_keeps_user_turn_witness:
  "client live_session \<noteq> None
   \<and> query_fails interrupted_project (str ''Which commands were denied?'')
   \<and> (case send_message interrupted_project (str ''Which commands were denied?'') live_session
            empty_world of
        (frags, s1, w1) \<Rightarrow>
          frags = [Text (str ''Two commands were denied.''), Error follow_up_failed_text]
          \<and> messages s1 =
              [\<lparr>role = str ''user'', content = str ''Which commands were denied?'',
                timestamp = str ''2025-01-01T00:00:00''\<rparr>,
               \<lparr>role = str ''assistant'', content = str ''Two commands were denied.'',
                timestamp = str ''2025-01-01T00:00:00''\<rparr>]
          \<and> length (user_turns (messages s1)) = 1)"
proof -
  obtain c where c: "client live_session = Some c"
    by (simp add: live_session_def)
  have qf: "query_fails interrupted_project (str ''Which commands were denied?'')"
    by (simp add: query_fails_def interrupted_project_def)
  have at: "answer_texts interrupted_project (str ''Which commands were denied?'') =
      [str ''Two commands were denied.'']"
    by (simp add: answer_texts_def interrupted_project_def)
  have m0: "messages live_session = []"
    by (simp add: live_session_def demo_session_def LogReviewSession_def)
  have nw: "now interrupted_project = (\<lambda>n. (str ''2025-01-01T00:00:00''))"
    by (simp add: interrupted_project_def recorded_project_def fresh_project_def)
  have fr: "fst (send_message interrupted_project (str ''Which commands were denied?'') live_session
      empty_world) = [Text (str ''Two commands were denied.''), Error follow_up_failed_text]"
    by (simp add: send_message_with_client [OF c] at qf)
  from send_message_keeps_user_turn [OF c, where e = interrupted_project
      and m = "(str ''Which commands were denied?'')" and w = empty_world] c qf fr
  show ?thesis
    by (simp add: at m0 nw user_turns_def split: prod.splits)
qed

subsection \<open>The registry\<close>

lemma close_calls_append: "close_calls (xs @ ys) = close_calls xs @ close_calls ys"
  by (simp add: close_calls_def)

lemma exit_calls_append: "exit_calls (xs @ ys) = exit_calls xs @ exit_calls ys"
  by (simp add: exit_calls_def)

text \<open>What one \<^verbatim>\<open>close\<close> adds to the trace, and what it leaves on disk.\<close>

lemma close_logged_trace:
  "trace (close_logged e s w) =
     trace w @ [CloseCall (oid s)]
     @ (if is_entered s then [Exit (oid s)] else [])
     @ (case settings_file s of
          None \<Rightarrow> []
        | Some p \<Rightarrow> if \<not> exists_raises e p \<and> p \<in> disk w then [Unlink p] else [])"
  by (simp add: close_logged_def close_def emit_def Let_def is_entered_def split: option.splits)

lemma close_logged_disk:
  "disk (close_logged e s w) =
     (case settings_file s of
        None \<Rightarrow> disk w
      | Some p \<Rightarrow> if exists_raises e p \<or> unlink_raises e then disk w else disk w - {p})"
  by (auto simp add: close_logged_def close_def emit_def Let_def split: option.splits)

lemma close_logged_close_calls:
  "close_calls (trace (close_logged e s w)) = close_calls (trace w) @ [oid s]"
  by (cases "settings_file s") (simp_all add: close_logged_trace close_calls_def)

lemma with_registry_lock_trace:
  "trace (with_registry_lock ops w) = trace w @ [RegistryAcquire] @ ops @ [RegistryRelease]"
  by (simp add: with_registry_lock_def)

lemma with_registry_lock_disk: "disk (with_registry_lock ops w) = disk w"
  by (simp add: with_registry_lock_def)

lemma map_of_pop_same:
  "map_of (filter (\<lambda>kv. fst kv \<noteq> k) d @ [(k, v)]) k = Some v"
  by (induction d) auto

lemma map_of_pop_other:
  "k' \<noteq> k \<Longrightarrow> map_of (filter (\<lambda>kv. fst kv \<noteq> k) d @ [(k, v)]) k' = map_of d k'"
  by (induction d) auto

lemma keys_after_pop:
  "filter (\<lambda>kv. fst kv = k) (filter (\<lambda>kv. fst kv \<noteq> k) d @ [(k, v)]) = [(k, v)]"
  by (induction d) auto

text \<open>
  C6. When a session is registered for the project, \<^verbatim>\<open>create_log_review_session\<close>
  returns the freshly constructed session, which is then the one entry of the registry
  for that project, and the entries of the other projects are as before. The trace
  gains, in this order: the registry lock taken, the old entry popped, the new one
  set, the lock released; then, after the release, one call of \<^verbatim>\<open>close\<close> on the old
  session, the \<^verbatim>\<open>__aexit__\<close> of its client if it was entered, and the removal of its
  settings file if the file is there and the existence test does not raise. The file
  is gone from the disk unless that test or the removal raises. All of this holds
  whether or not \<^verbatim>\<open>close\<close> raises: the new session is returned either way.
\<close>

theorem create_replaces_and_closes_old:
  assumes "get_log_review_session name r = Some old"
  shows "(case create_log_review_session e name dir r w of
            (s, r1, w1) \<Rightarrow>
              s = LogReviewSession (next_oid r) name dir
              \<and> get_log_review_session name r1 = Some s
              \<and> filter (\<lambda>kv. fst kv = name) (sessions r1) = [(name, s)]
              \<and> (\<forall>other. other \<noteq> name \<longrightarrow>
                    get_log_review_session other r1 = get_log_review_session other r)
              \<and> trace w1 =
                  trace w
                  @ [RegistryAcquire, RegistryPop name, RegistrySet name (next_oid r),
                     RegistryRelease]
                  @ [CloseCall (oid old)]
                  @ (if is_entered old then [Exit (oid old)] else [])
                  @ (case settings_file old of
                       None \<Rightarrow> []
                     | Some p \<Rightarrow>
                         if \<not> exists_raises e p \<and> p \<in> disk w then [Unlink p] else [])
              \<and> disk w1 =
                  (case settings_file old of
                     None \<Rightarrow> disk w
                   | Some p \<Rightarrow>
                       if exists_raises e p \<or> unlink_raises e then disk w else disk w - {p})
              \<and> close_calls (trace w1) = close_calls (trace w) @ [oid old])"
proof -
  let ?s = "LogReviewSession (next_oid r) name dir"
  let ?d = "filter (\<lambda>kv. fst kv \<noteq> name) (sessions r) @ [(name, ?s)]"
  let ?w0 = "with_registry_lock [RegistryPop name, RegistrySet name (next_oid r)] w"
  have old: "map_of (sessions r) name = Some old"
    using assms by (simp add: get_log_review_session_def)
  have res: "create_log_review_session e name dir r w =
      (?s, r\<lparr>sessions := ?d, next_oid := Suc (next_oid r)\<rparr>, close_logged e old ?w0)"
    using old
    by (simp add: create_log_review_session_def pop_def Let_def LogReviewSession_def)
  have tr: "trace (close_logged e old ?w0) =
      trace w
      @ [RegistryAcquire, RegistryPop name, RegistrySet name (next_oid r), RegistryRelease]
      @ [CloseCall (oid old)]
      @ (if is_entered old then [Exit (oid old)] else [])
      @ (case settings_file old of
           None \<Rightarrow> []
         | Some p \<Rightarrow> if \<not> exists_raises e p \<and> p \<in> disk w then [Unlink p] else [])"
    by (cases "settings_file old")
      (simp_all add: close_logged_trace with_registry_lock_trace with_registry_lock_disk)
  have dk: "disk (close_logged e old ?w0) =
      (case settings_file old of
         None \<Rightarrow> disk w
       | Some p \<Rightarrow> if exists_raises e p \<or> unlink_raises e then disk w else disk w - {p})"
    by (cases "settings_file old") (simp_all add: close_logged_disk with_registry_lock_disk)
  have cc: "close_calls (trace (close_logged e old ?w0)) = close_calls (trace w) @ [oid old]"
    unfolding close_logged_close_calls with_registry_lock_trace
    by (simp add: close_calls_def)
  have reg: "map_of ?d name = Some ?s"
    "filter (\<lambda>kv. fst kv = name) ?d = [(name, ?s)]"
    "\<forall>other. other \<noteq> name \<longrightarrow> map_of ?d other = map_of (sessions r) other"
    by (simp_all add: map_of_pop_same map_of_pop_other keys_after_pop del: map_of_append)
  show ?thesis
    unfolding res using tr dk cc reg
    by (simp add: get_log_review_session_def del: map_of_append)
qed

theorem create_replaces_and_closes_old_witness:
  "get_log_review_session (str ''demo'') two_sessions = Some old_session
   \<and> fst (close stat_error_project old_session two_files)
   \<and> (case create_log_review_session stat_error_project (str ''demo'') (str ''/srv/demo'')
            two_sessions two_files of
        (s, r1, w1) \<Rightarrow>
          s = LogReviewSession 2 (str ''demo'') (str ''/srv/demo'')
          \<and> sessions r1 = [(str ''other'', other_session), (str ''demo'', s)]
          \<and> trace w1 =
              [RegistryAcquire, RegistryPop (str ''demo''), RegistrySet (str ''demo'') 2,
               RegistryRelease, CloseCall 0, Exit 0]
          \<and> disk w1 = disk two_files)
   \<and> \<not> fst (close fresh_project old_session two_files)
   \<and> (case create_log_review_session fresh_project (str ''demo'') (str ''/srv/demo'')
            two_sessions two_files of
        (s, r1, w1) \<Rightarrow>
          s = LogReviewSession 2 (str ''demo'') (str ''/srv/demo'')
          \<and> trace w1 =
              [RegistryAcquire, RegistryPop (str ''demo''), RegistrySet (str ''demo'') 2,
               RegistryRelease, CloseCall 0, Exit 0,
               Unlink (str ''/srv/demo/.autoforge/settings.0.json'')]
          \<and> disk w1 = {str ''/srv/other/.autoforge/settings.1.json''})"
proof -
  have old: "get_log_review_session (str ''demo'') two_sessions = Some old_session"
    by (simp add: get_log_review_session_def two_sessions_def)
  have raises: "fst (close stat_error_project old_session two_files)"
    by (simp add: close_def Let_def emit_def stat_error_project_def old_session_def
        LogReviewSession_def two_files_def)
  have quiet: "\<not> fst (close fresh_project old_session two_files)"
    by (simp add: close_def Let_def emit_def fresh_project_def old_session_def
        LogReviewSession_def two_files_def)
  have reg: "sessions (fst (snd (create_log_review_session stat_error_project (str ''demo'')
      (str ''/srv/demo'') two_sessions two_files))) =
      [(str ''other'', other_session),
       (str ''demo'', LogReviewSession 2 (str ''demo'') (str ''/srv/demo''))]"
    by (simp add: create_log_review_session_def pop_def two_sessions_def Let_def)
  have facts: "oid old_session = 0" "next_oid two_sessions = 2" "trace two_files = []"
    "is_entered old_session"
    "settings_file old_session = Some (str ''/srv/demo/.autoforge/settings.0.json'')"
    "str ''/srv/demo/.autoforge/settings.0.json'' \<in> disk two_files"
    "disk two_files - {str ''/srv/demo/.autoforge/settings.0.json''} =
       {str ''/srv/other/.autoforge/settings.1.json''}"
    by (auto simp add: old_session_def LogReviewSession_def two_sessions_def two_files_def
        is_entered_def)
  have env: "exists_raises stat_error_project (str ''/srv/demo/.autoforge/settings.0.json'')"
    "\<not> exists_raises fresh_project (str ''/srv/demo/.autoforge/settings.0.json'')"
    "\<not> unlink_raises fresh_project"
    by (simp_all add: stat_error_project_def fresh_project_def)
  from create_replaces_and_closes_old [OF old, where e = stat_error_project
      and dir = "str ''/srv/demo''" and w = two_files]
    create_replaces_and_closes_old [OF old, where e = fresh_project
      and dir = "str ''/srv/demo''" and w = two_files]
    old raises quiet reg facts env
  show ?thesis
    by (simp split: prod.splits)
qed

lemma fold_close_logged_delta:
  "\<exists>closing.
     trace (fold (close_logged e) ss w) = trace w @ closing
     \<and> close_calls closing = map oid ss
     \<and> exit_calls closing = map oid (filter is_entered ss)
     \<and> filter is_registry_event closing = []"
proof (induction ss arbitrary: w)
  case Nil
  then show ?case by (simp add: close_calls_def exit_calls_def)
next
  case (Cons s ss)
  define c1 where "c1 =
     [CloseCall (oid s)]
     @ (if is_entered s then [Exit (oid s)] else [])
     @ (case settings_file s of
          None \<Rightarrow> []
        | Some p \<Rightarrow> if \<not> exists_raises e p \<and> p \<in> disk w then [Unlink p] else [])"
  have t1: "trace (close_logged e s w) = trace w @ c1"
    by (simp add: close_logged_trace c1_def)
  have c1: "close_calls c1 = [oid s]"
    "exit_calls c1 = (if is_entered s then [oid s] else [])"
    "filter is_registry_event c1 = []"
    unfolding c1_def
    by (cases "settings_file s"; simp add: close_calls_def exit_calls_def)+
  from Cons.IH [of "close_logged e s w"] obtain c2 where
    c2: "trace (fold (close_logged e) ss (close_logged e s w)) = trace (close_logged e s w) @ c2"
      "close_calls c2 = map oid ss"
      "exit_calls c2 = map oid (filter is_entered ss)"
      "filter is_registry_event c2 = []"
    by blast
  have "trace (fold (close_logged e) (s # ss) w) = trace w @ (c1 @ c2)"
    using c2(1) t1 by simp
  moreover have "close_calls (c1 @ c2) = map oid (s # ss)"
    by (simp add: close_calls_append c1 c2)
  moreover have "exit_calls (c1 @ c2) = map oid (filter is_entered (s # ss))"
    by (simp add: exit_calls_append c1 c2)
  moreover have "filter is_registry_event (c1 @ c2) = []"
    by (simp add: c1 c2)
  ultimately show ?case by blast
qed

lemma fold_close_logged_disk:
  "(p \<in> disk (fold (close_logged e) ss w)) =
     (p \<in> disk w
      \<and> (\<forall>s \<in> set ss. settings_file s = Some p \<longrightarrow> exists_raises e p \<or> unlink_raises e))"
proof (induction ss arbitrary: w)
  case Nil
  then show ?case by simp
next
  case (Cons s ss)
  have "(p \<in> disk (close_logged e s w)) =
      (p \<in> disk w \<and> (settings_file s = Some p \<longrightarrow> exists_raises e p \<or> unlink_raises e))"
    by (cases "settings_file s") (auto simp add: close_logged_disk)
  then show ?case
    using Cons.IH [of "close_logged e s w"] by auto
qed

lemma fold_close_logged_close_calls:
  "close_calls (trace (fold (close_logged e) ss w)) = close_calls (trace w) @ map oid ss"
  using fold_close_logged_delta [of e ss w] by (auto simp add: close_calls_append)

text \<open>
  C7. \<^verbatim>\<open>cleanup_all_log_review_sessions\<close> leaves the registry empty. The trace gains
  the registry lock taken, the dictionary cleared and the lock released, and after the
  release the events of closing, among them no registry event: one call of
  \<^verbatim>\<open>close\<close> for every session held, in the order of the dictionary, and one
  \<^verbatim>\<open>__aexit__\<close> for every session whose client was entered, whether or not a
  \<^verbatim>\<open>close\<close> raises (in the witness the first one does). A file is on disk
  afterwards exactly if it was there before and no session held has it as its
  settings file, or the existence test or the removal raises for it. On an empty
  registry nothing is closed: registry and disk are as before and the trace gains the
  three registry events only.
\<close>

theorem cleanup_all_closes_every_session:
  "(case cleanup_all_log_review_sessions e r w of
      (r1, w1) \<Rightarrow>
        sessions r1 = []
        \<and> next_oid r1 = next_oid r
        \<and> (\<exists>closing.
              trace w1 = trace w @ [RegistryAcquire, RegistryClear, RegistryRelease] @ closing
              \<and> close_calls closing = map (\<lambda>kv. oid (snd kv)) (sessions r)
              \<and> exit_calls closing =
                  map (\<lambda>kv. oid (snd kv)) (filter (\<lambda>kv. is_entered (snd kv)) (sessions r))
              \<and> filter is_registry_event closing = [])
        \<and> (\<forall>p. (p \<in> disk w1) =
              (p \<in> disk w
               \<and> (\<forall>kv \<in> set (sessions r).
                     settings_file (snd kv) = Some p \<longrightarrow>
                     exists_raises e p \<or> unlink_raises e)))
        \<and> close_calls (trace w1) = close_calls (trace w) @ map (\<lambda>kv. oid (snd kv)) (sessions r)
        \<and> (sessions r = [] \<longrightarrow>
              r1 = r \<and> disk w1 = disk w
              \<and> trace w1 = trace w @ [RegistryAcquire, RegistryClear, RegistryRelease]))"
proof -
  let ?ss = "map snd (sessions r)"
  let ?w0 = "with_registry_lock [RegistryClear] w"
  have res: "cleanup_all_log_review_sessions e r w =
      (r\<lparr>sessions := []\<rparr>, fold (close_logged e) ?ss ?w0)"
    by (simp add: cleanup_all_log_review_sessions_def Let_def)
  obtain closing where cl:
    "trace (fold (close_logged e) ?ss ?w0) = trace ?w0 @ closing"
    "close_calls closing = map oid ?ss"
    "exit_calls closing = map oid (filter is_entered ?ss)"
    "filter is_registry_event closing = []"
    using fold_close_logged_delta [of e ?ss ?w0] by blast
  have a: "trace (fold (close_logged e) ?ss ?w0) =
      trace w @ [RegistryAcquire, RegistryClear, RegistryRelease] @ closing"
    using cl(1) by (simp add: with_registry_lock_trace)
  have b: "close_calls closing = map (\<lambda>kv. oid (snd kv)) (sessions r)"
    using cl(2) by (simp add: comp_def)
  have c: "exit_calls closing =
      map (\<lambda>kv. oid (snd kv)) (filter (\<lambda>kv. is_entered (snd kv)) (sessions r))"
    using cl(3) by (simp add: filter_map comp_def)
  have d: "\<forall>p. (p \<in> disk (fold (close_logged e) ?ss ?w0)) =
      (p \<in> disk w
       \<and> (\<forall>kv \<in> set (sessions r).
             settings_file (snd kv) = Some p \<longrightarrow> exists_raises e p \<or> unlink_raises e))"
    by (simp add: fold_close_logged_disk with_registry_lock_disk)
  have f: "close_calls (trace (fold (close_logged e) ?ss ?w0)) =
      close_calls (trace w) @ map (\<lambda>kv. oid (snd kv)) (sessions r)"
    unfolding a close_calls_append b by (simp add: close_calls_def)
  have g: "sessions r = [] \<longrightarrow>
      r\<lparr>sessions := []\<rparr> = r
      \<and> disk (fold (close_logged e) ?ss ?w0) = disk w
      \<and> trace (fold (close_logged e) ?ss ?w0) =
          trace w @ [RegistryAcquire, RegistryClear, RegistryRelease]"
    by (simp add: with_registry_lock_trace with_registry_lock_disk)
  show ?thesis
    unfolding res using a b c cl(4) d f g by (simp del: fold_simps)
qed

theorem cleanup_all_closes_every_session_witness:
  "sessions no_sessions_registered = []
   \<and> cleanup_all_log_review_sessions stat_error_project no_sessions_registered empty_world =
       (no_sessions_registered,
        \<lparr>disk = {}, trace = [RegistryAcquire, RegistryClear, RegistryRelease]\<rparr>)
   \<and> fst (close stat_error_project old_session two_files)
   \<and> (case cleanup_all_log_review_sessions stat_error_project two_sessions two_files of
        (r1, w1) \<Rightarrow>
          sessions r1 = []
          \<and> trace w1 =
              [RegistryAcquire, RegistryClear, RegistryRelease,
               CloseCall 0, Exit 0,
               CloseCall 1, Exit 1, Unlink (str ''/srv/other/.autoforge/settings.1.json'')]
          \<and> disk w1 = {str ''/srv/demo/.autoforge/settings.0.json''}
          \<and> close_calls (trace w1) = [0, 1]
          \<and> exit_calls (trace w1) = [0, 1])"
proof -
  have none: "sessions no_sessions_registered = []"
    by (simp add: no_sessions_registered_def)
  have raises: "fst (close stat_error_project old_session two_files)"
    by (simp add: close_def Let_def emit_def stat_error_project_def old_session_def
        LogReviewSession_def two_files_def)
  have run: "cleanup_all_log_review_sessions stat_error_project two_sessions two_files =
      (two_sessions\<lparr>sessions := []\<rparr>,
       \<lparr>disk = {str ''/srv/demo/.autoforge/settings.0.json''},
        trace = [RegistryAcquire, RegistryClear, RegistryRelease,
                 CloseCall 0, Exit 0,
                 CloseCall 1, Exit 1, Unlink (str ''/srv/other/.autoforge/settings.1.json'')]\<rparr>)"
    by (auto simp add: cleanup_all_log_review_sessions_def Let_def two_sessions_def
        with_registry_lock_def close_logged_def close_def emit_def old_session_def
        other_session_def LogReviewSession_def two_files_def stat_error_project_def
        fresh_project_def)
  have empty: "cleanup_all_log_review_sessions stat_error_project no_sessions_registered
      empty_world =
      (no_sessions_registered,
       \<lparr>disk = {}, trace = [RegistryAcquire, RegistryClear, RegistryRelease]\<rparr>)"
    by (simp add: cleanup_all_log_review_sessions_def Let_def no_sessions_registered_def
        with_registry_lock_def empty_world_def)
  from cleanup_all_closes_every_session [where e = stat_error_project
      and r = two_sessions and w = two_files]
    none raises run empty
  show ?thesis
    by (simp add: close_calls_def exit_calls_def)
qed

subsection \<open>One query at a time\<close>

lemma client_append_message: "client (append_message e r c s) = client s"
  by (simp add: append_message_def)

lemma oid_append_message: "oid (append_message e r c s) = oid s"
  by (simp add: append_message_def)

lemma length_move [simp]: "length (calls (move i p st)) = length (calls st)"
  by (simp add: move_def)


lemma emitted_move [simp]: "emitted (move i p st) = emitted st"
  by (simp add: move_def)

lemma locked_move [simp]: "locked (move i p st) = locked st"
  by (simp add: move_def)

lemma calls_yield [simp]: "calls (yield i frags st) = calls st"
  by (simp add: yield_def)

lemma locked_yield [simp]: "locked (yield i frags st) = locked st"
  by (simp add: yield_def)

lemma owners_yield [simp]:
  "chunk_owners (emitted (yield i frags st)) = chunk_owners (emitted st)"
  by (induction frags) (simp_all add: yield_def chunk_owners_def)

lemma position_yield [simp]: "position_of (yield i frags st) j = position_of st j"
  by (simp add: position_of_def)







text \<open>
  A call that runs alone, step after step, yields what the functions \<^const>\<open>start\<close>
  and \<^const>\<open>send_message\<close> say and leaves the same session and world.
\<close>

lemma start_by_prologue:
  "start e s w =
     (case start_prologue e s w of
        (go, frags, s1, w1) \<Rightarrow>
          if go
          then (case start_analysis e s1 w1 of (chunks, s2, w2) \<Rightarrow> (frags @ chunks, s2, w2))
          else (frags, s1, w1))"
  by (simp add: start_def start_prologue_def start_client_def Let_def
      split: option.splits client_init.splits prod.splits)

lemma run_append: "run e (xs @ ys) st = run e ys (run e xs st)"
  by (induction xs arbitrary: st) simp_all

lemma run_finished:
  "calls st = [(c, Finished)] \<Longrightarrow> run e schedule st = st"
proof (induction schedule)
  case Nil
  then show ?case by simp
next
  case (Cons i schedule)
  have "step e i st = st"
    using Cons.prems by (cases i) (simp_all add: step_def)
  then show ?case
    using Cons by simp
qed

lemma run_receiving:
  "calls st = [(c, Receiving ts b)] \<Longrightarrow>
   run e (replicate (length ts) 0) st =
     st\<lparr>shared := fold (append_message e (str ''assistant'')) ts (shared st),
        emitted := emitted st @ map (Chunk 0) ts,
        calls := [(c, Receiving [] b)]\<rparr>"
proof (induction ts arbitrary: st)
  case Nil
  then show ?case by simp
next
  case (Cons t ts)
  let ?st1 = "st\<lparr>shared := append_message e (str ''assistant'') t (shared st),
      emitted := emitted st @ [Chunk 0 t], calls := [(c, Receiving ts b)]\<rparr>"
  have one: "step e 0 st = ?st1"
    using Cons.prems by (simp add: step_def move_def)
  have "calls ?st1 = [(c, Receiving ts b)]"
    by simp
  from Cons.IH [OF this] show ?case
    using one by simp
qed

lemma schedule_alone: "replicate (n + 4) (0::nat) = [0, 0, 0] @ replicate n 0 @ [0]"
  by (induction n) (simp_all add: numeral_eq_Suc)

lemma query_alone:
  assumes "calls st = [(c, Querying)]" and "client (shared st) = Some cl" and "locked st"
  shows "run e (0 # replicate (length (answer_texts e (query_text c))) 0 @ [0]) st =
    st\<lparr>shared :=
         (if query_fails e (query_text c) then (\<lambda>s. s) else after_stream c)
           (fold (append_message e (str ''assistant'')) (answer_texts e (query_text c))
              (shared st)),
       outside := emit (Query (oid (shared st)) (query_text c)) (outside st),
       locked := False,
       emitted := emitted st @ map (Chunk 0) (answer_texts e (query_text c))
         @ map (Other 0)
             (if query_fails e (query_text c) then [Error (failure_text c)]
              else closing_fragments c),
       calls := [(c, Finished)]\<rparr>"
proof (cases "query_raises (respond e (query_text c))")
  case True
  have texts: "answer_texts e (query_text c) = []" "query_fails e (query_text c)"
    using True by (simp_all add: answer_texts_def query_fails_def)
  show ?thesis
    using assms True texts
    by (simp add: step_def move_def yield_def Let_def)
next
  case False
  let ?ts = "answer_texts e (query_text c)"
  let ?b = "stream_raises (respond e (query_text c))"
  let ?st1 = "st\<lparr>outside := emit (Query (oid (shared st)) (query_text c)) (outside st),
      calls := [(c, Receiving ?ts ?b)]\<rparr>"
  have ts: "?ts = concat (map message_texts (stream (respond e (query_text c))))"
    using False by (simp add: answer_texts_def)
  have qf: "query_fails e (query_text c) = ?b"
    using False by (simp add: query_fails_def)
  have one: "step e 0 st = ?st1"
    using assms False by (simp add: step_def move_def Let_def ts)
  have c1: "calls ?st1 = [(c, Receiving ?ts ?b)]"
    by simp
  let ?st2 = "?st1\<lparr>shared := fold (append_message e (str ''assistant'')) ?ts (shared ?st1),
      emitted := emitted ?st1 @ map (Chunk 0) ?ts, calls := [(c, Receiving [] ?b)]\<rparr>"
  have two: "run e (replicate (length ?ts) 0) ?st1 = ?st2"
    using c1 by (rule run_receiving)
  have "run e (0 # replicate (length ?ts) 0 @ [0]) st = step e 0 ?st2"
    using one two by (simp add: run_append)
  also have "step e 0 ?st2 =
    st\<lparr>shared :=
         (if query_fails e (query_text c) then (\<lambda>s. s) else after_stream c)
           (fold (append_message e (str ''assistant'')) ?ts (shared st)),
       outside := emit (Query (oid (shared st)) (query_text c)) (outside st),
       locked := False,
       emitted := emitted st @ map (Chunk 0) ?ts
         @ map (Other 0)
             (if query_fails e (query_text c) then [Error (failure_text c)]
              else closing_fragments c),
       calls := [(c, Finished)]\<rparr>"
    unfolding qf by (simp add: step_def move_def yield_def)
  finally show ?thesis .
qed

lemma send_message_alone:
  "(let st = run e (replicate (length (answer_texts e m) + 4) 0) (begin_calls s w [SendCall m])
    in (map fragment_of (emitted st), shared st, outside st) = send_message e m s w
       \<and> \<not> locked st
       \<and> calls st = [(SendCall m, Finished)])"
proof (cases "client s")
  case None
  let ?st1 = "(begin_calls s w [SendCall m])
      \<lparr>emitted := [Other 0 (Error not_initialized_text)], calls := [(SendCall m, Finished)]\<rparr>"
  have one: "step e 0 (begin_calls s w [SendCall m]) = ?st1"
    using None by (simp add: step_def begin_calls_def move_def yield_def)
  have "run e (replicate (length (answer_texts e m) + 4) 0) (begin_calls s w [SendCall m]) =
      run e ([0, 0] @ replicate (length (answer_texts e m)) 0 @ [0]) ?st1"
    unfolding schedule_alone using one by simp
  also have "\<dots> = ?st1"
    by (rule run_finished) simp
  finally show ?thesis
    using None by (simp add: Let_def send_message_def begin_calls_def)
next
  case (Some cl)
  let ?s1 = "append_message e (str ''user'') m s"
  let ?st2 = "(begin_calls s w [SendCall m])
      \<lparr>shared := ?s1, locked := True, calls := [(SendCall m, Querying)]\<rparr>"
  have two: "run e [0, 0] (begin_calls s w [SendCall m]) = ?st2"
    using Some by (simp add: step_def begin_calls_def move_def)
  have q: "calls ?st2 = [(SendCall m, Querying)]" "client (shared ?st2) = Some cl" "locked ?st2"
    using Some by (simp_all add: client_append_message)
  have "run e (replicate (length (answer_texts e m) + 4) 0) (begin_calls s w [SendCall m]) =
      run e ([0, 0] @ (0 # replicate (length (answer_texts e m)) 0 @ [0]))
        (begin_calls s w [SendCall m])"
    by (simp add: schedule_alone)
  also have "\<dots> = run e (0 # replicate (length (answer_texts e m)) 0 @ [0])
      (run e [0, 0] (begin_calls s w [SendCall m]))"
    by (rule run_append)
  finally have "run e (replicate (length (answer_texts e m) + 4) 0)
      (begin_calls s w [SendCall m]) =
      run e (0 # replicate (length (answer_texts e (query_text (SendCall m)))) 0 @ [0]) ?st2"
    by (simp only: two query_text.simps)
  then show ?thesis
    unfolding Let_def query_alone [OF q] send_message_with_client [OF Some]
    by (simp add: begin_calls_def oid_append_message comp_def)
qed

lemma start_analysis_with_client:
  assumes "client s = Some c"
  shows "start_analysis e s w =
    (map Text (answer_texts e analysis_query)
       @ (if query_fails e analysis_query then [Error start_failed_text]
          else [AnalysisComplete, ResponseDone]),
     (if query_fails e analysis_query then (\<lambda>s. s) else after_stream StartCall)
       (fold (append_message e (str ''assistant'')) (answer_texts e analysis_query) s),
     emit (Query (oid s) analysis_query) w)"
  by (simp add: start_analysis_def query_claude_with_client [OF assms])

lemma prologue_client:
  "start_prologue e s w = (True, frags, s1, w1) \<Longrightarrow> client s1 \<noteq> None \<and> oid s1 = oid s"
  by (auto simp add: start_prologue_def Let_def
      split: option.splits if_splits client_init.splits)

lemma start_alone:
  "(let st = run e (replicate (length (answer_texts e analysis_query) + 4) 0)
               (begin_calls s w [StartCall])
    in (map fragment_of (emitted st), shared st, outside st) = start e s w
       \<and> \<not> locked st
       \<and> calls st = [(StartCall, Finished)])"
proof -
  obtain go frags s1 w1 where pr: "start_prologue e s w = (go, frags, s1, w1)"
    by (cases "start_prologue e s w") auto
  show ?thesis
  proof (cases go)
    case False
    let ?st1 = "(begin_calls s w [StartCall])
        \<lparr>shared := s1, outside := w1, emitted := map (Other 0) frags,
         calls := [(StartCall, Finished)]\<rparr>"
    have one: "step e 0 (begin_calls s w [StartCall]) = ?st1"
      using pr False by (simp add: step_def begin_calls_def move_def yield_def)
    have "run e (replicate (length (answer_texts e analysis_query) + 4) 0)
        (begin_calls s w [StartCall]) =
        run e ([0, 0] @ replicate (length (answer_texts e analysis_query)) 0 @ [0]) ?st1"
      unfolding schedule_alone using one by simp
    also have "\<dots> = ?st1"
      by (rule run_finished) simp
    finally show ?thesis
      using pr False by (simp add: Let_def start_by_prologue begin_calls_def comp_def)
  next
    case True
    have "start_prologue e s w = (True, frags, s1, w1)"
      using pr True by simp
    from prologue_client [OF this] obtain cl where cl: "client s1 = Some cl"
      and o: "oid s1 = oid s"
      by auto
    let ?st2 = "(begin_calls s w [StartCall])
        \<lparr>shared := s1, outside := w1, emitted := map (Other 0) frags, locked := True,
         calls := [(StartCall, Querying)]\<rparr>"
    have two: "run e [0, 0] (begin_calls s w [StartCall]) = ?st2"
      using pr True by (simp add: step_def begin_calls_def move_def yield_def)
    have q: "calls ?st2 = [(StartCall, Querying)]" "client (shared ?st2) = Some cl" "locked ?st2"
      using cl by simp_all
    have "run e (replicate (length (answer_texts e analysis_query) + 4) 0)
        (begin_calls s w [StartCall]) =
        run e ([0, 0] @ (0 # replicate (length (answer_texts e analysis_query)) 0 @ [0]))
          (begin_calls s w [StartCall])"
      by (simp add: schedule_alone)
    also have "\<dots> = run e (0 # replicate (length (answer_texts e analysis_query)) 0 @ [0])
        (run e [0, 0] (begin_calls s w [StartCall]))"
      by (rule run_append)
    finally have "run e (replicate (length (answer_texts e analysis_query) + 4) 0)
        (begin_calls s w [StartCall]) =
        run e (0 # replicate (length (answer_texts e (query_text StartCall))) 0 @ [0]) ?st2"
      by (simp only: two query_text.simps)
    then show ?thesis
      unfolding Let_def query_alone [OF q]
      using pr True
      by (simp add: start_by_prologue start_analysis_with_client [OF cl] begin_calls_def
          comp_def)
  qed
qed








end
